theory Spec2Isabelle
  imports Main "HOL-Library.Word"
begin

section \<open>Call orchestrator: data model\<close>

text \<open>
  The embedding follows \<^verbatim>\<open>call-orchestrator.ts\<close> (class \<^verbatim>\<open>CallOrchestrator\<close>) and the
  parts of \<^verbatim>\<open>deepgram.ts\<close> (class \<^verbatim>\<open>DeepgramSTTClient\<close>) it relies on.

  Conventions of the model:
  \<^item> \<^verbatim>\<open>Date.now()\<close> is a parameter (\<open>now\<close>, milliseconds as \<open>int\<close>);
  \<^item> the answer of an external service to a call (the language-model completion, the
    synthesis stream, the transcription connect) is a parameter of the operation that
    makes the call; the answer to the telephony end-of-call request is dropped by the
    code and has no parameter;
  \<^item> \<^verbatim>\<open>this.emit(...)\<close> and the calls made on collaborators are appended to a
    trace kept in the orchestrator state, so that what was sent where can be observed;
  \<^item> the \<^verbatim>\<open>Map\<close>s of the orchestrator are maps from call identifiers; a session is
    stored by value under its call identifier, and an operation that works on the session
    object writes it back under that identifier;
  \<^item> every \<^verbatim>\<open>async\<close> operation runs to completion, except the playback loop of
    \<^verbatim>\<open>speakResponse\<close>, whose awaits are interleaved with barge-in explicitly;
  \<^item> a text (whatever reaches the history, the summary or \<^verbatim>\<open>trim\<close>) is a JavaScript
    string: a sequence of UTF-16 code units. Identifiers, which are only compared and
    passed on, are of type \<open>string\<close>;
  \<^item> the identity of session objects is kept by stamps: every session object created gets
    a fresh number, and the orchestrator state records the number of the object registered
    under each call identifier. The handlers of a transcription client write to the object
    they closed over, which is the registered one exactly when the numbers agree.
\<close>

type_synonym js_string = "16 word list"

text \<open>The JavaScript string of an ASCII literal.\<close>

definition js :: "string \<Rightarrow> js_string" where
  "js s = map of_char s"

datatype role = User | Assistant | System

record turn =
  role :: role
  content :: js_string

datatype latency_mode = FAST | BALANCED | NATURAL

record agent_rules =
  noLegal :: bool
  noMedical :: bool
  confirmBookings :: bool
  handoffOnConfusion :: bool

record AgentConfig =
  agent_id :: string
  agent_name :: js_string
  language :: string
  instructions :: js_string
  greeting :: js_string
  fallbackMessage :: js_string
  voiceId :: string
  latencyMode :: latency_mode
  rules :: agent_rules

datatype call_status = Initiated | Ringing | Answered | Completed | Failed

datatype call_direction = Inbound | Outbound

record CallState =
  cs_callId :: string
  cs_status :: call_status
  cs_direction :: call_direction
  cs_to :: string
  cs_from :: string
  cs_startedAt :: int
  cs_durationSec :: int

record CallSession =
  callId :: string
  tenantId :: string
  agentId :: string
  campaignId :: "string option"
  agent :: AgentConfig
  callState :: CallState
  conversationHistory :: "turn list"
  creditsUsed :: int
  startTime :: int
  isSpeaking :: bool
  isListening :: bool
  silenceStart :: "int option"
  lastUserSpeech :: "int option"
  outcome :: "string option"
  transcriptSummary :: "js_string list"

text \<open>An audio frame is a \<^verbatim>\<open>Buffer\<close>: a sequence of bytes.\<close>

type_synonym frame = "8 word list"

text \<open>
  \<^verbatim>\<open>TranscriptResult\<close> of \<^verbatim>\<open>deepgram.ts\<close>. The fields \<^verbatim>\<open>confidence\<close> and
  \<^verbatim>\<open>words\<close> are payload that neither the client nor the orchestrator reads; they are
  left out.
\<close>

record TranscriptResult =
  result_text :: js_string
  isFinal :: bool
  speechFinal :: bool

text \<open>
  \<^verbatim>\<open>DeepgramSTTClient\<close>: \<open>ws\<close> says whether the socket field is non-null.
\<close>

record DeepgramSTTClient =
  ws :: bool
  isConnected :: bool

text \<open>What the orchestrator emits, and the calls it makes on its collaborators.\<close>

datatype event =
    SessionInitialized string
  | UserSpeaking string js_string bool
  | UserTranscript string js_string
  | SttError string
  | AudioError string
  | BargeIn string
  | AiError string
  | AiSpeaking string js_string
  | TtsNotConfigured string js_string
  | AudioOutput string frame
  | TtsError string
  | AiFinishedSpeaking string
  | CreditsDeducted string string int int
  | CallEnded string string int int string
  | SttConnect string
  | SttSendAudio string frame
  | SttDisconnect string
  | ChatCompletionRequest "turn list"
  | TtsStreamRequest string js_string
  | SignalwireEndCall string

record AudioBuffer =
  chunks :: "frame list"
  totalDuration :: int

text \<open>
  The process environment (which credentials are set) and the module-level
  \<^verbatim>\<open>openaiClient\<close> variable (\<open>True\<close> once the client object exists). The fields
  \<open>sessionIds\<close> and \<open>nextSessionId\<close> are the stamps of object identity: the number of
  the session object registered under a call identifier, and the number that the next
  session object created will get.
\<close>

record process_env =
  OPENAI_API_KEY :: "string option"
  DEEPGRAM_API_KEY :: "string option"
  ELEVENLABS_API_KEY :: "string option"
  SIGNALWIRE_PROJECT_ID :: "string option"
  SIGNALWIRE_TOKEN :: "string option"
  SIGNALWIRE_SPACE_URL :: "string option"

record orchestrator =
  activeSessions :: "string \<rightharpoonup> CallSession"
  sttClients :: "string \<rightharpoonup> DeepgramSTTClient"
  audioBuffers :: "string \<rightharpoonup> AudioBuffer"
  ttsQueue :: "string \<rightharpoonup> frame list"
  openaiClient :: bool
  trace :: "event list"
  sessionIds :: "string \<rightharpoonup> nat"
  nextSessionId :: nat

definition SILENCE_THRESHOLD_MS :: int where
  "SILENCE_THRESHOLD_MS = 1500"

definition MAX_CALL_DURATION_SEC :: int where
  "MAX_CALL_DURATION_SEC = 600"

definition CREDITS_PER_MINUTE :: int where
  "CREDITS_PER_MINUTE = 5"

definition emit :: "event \<Rightarrow> orchestrator \<Rightarrow> orchestrator" where
  "emit e st = st\<lparr>trace := trace st @ [e]\<rparr>"

definition new_orchestrator :: orchestrator where
  "new_orchestrator = \<lparr>activeSessions = Map.empty, sttClients = Map.empty,
     audioBuffers = Map.empty, ttsQueue = Map.empty, openaiClient = False, trace = [],
     sessionIds = Map.empty, nextSessionId = 0\<rparr>"

section \<open>JavaScript helpers\<close>

text \<open>Truthiness of an environment variable: unset and the empty string are falsy.\<close>

definition truthy :: "string option \<Rightarrow> bool" where
  "truthy v = (case v of None \<Rightarrow> False | Some s \<Rightarrow> s \<noteq> [])"

text \<open>
  \<^verbatim>\<open>Array.prototype.slice(start)\<close>: a negative start counts from the end and is
  clamped at the beginning; a start beyond the end gives the empty array.
\<close>

definition slice_from :: "int \<Rightarrow> 'a list \<Rightarrow> 'a list" where
  "slice_from start xs =
     (let n = int (length xs);
          k = (if start < 0 then max (n + start) 0 else min start n)
      in drop (nat k) xs)"

text \<open>
  \<^verbatim>\<open>Math.ceil(a / b)\<close> for integers \<open>a\<close> and a positive integer \<open>b\<close>.
\<close>

definition ceil_div :: "int \<Rightarrow> int \<Rightarrow> int" where
  "ceil_div a b = - ((- a) div b)"

text \<open>
  \<^verbatim>\<open>String.prototype.trim\<close> removes from both ends the code units that are white space
  or line terminators of the language: tab, line feed, vertical tab, form feed, carriage
  return, space, no-break space, the other space separators of Unicode (U+1680, U+2000 to
  U+200A, U+202F, U+205F, U+3000), the line and paragraph separators U+2028 and U+2029,
  and the byte order mark U+FEFF.
\<close>

definition is_ws :: "16 word \<Rightarrow> bool" where
  "is_ws c = (c \<in> set [0x09, 0x0A, 0x0B, 0x0C, 0x0D, 0x20, 0xA0, 0x1680, 0x2028, 0x2029,
                        0x202F, 0x205F, 0x3000, 0xFEFF]
              \<or> (0x2000 \<le> c \<and> c \<le> 0x200A))"

definition trim :: "js_string \<Rightarrow> js_string" where
  "trim s = rev (dropWhile is_ws (rev (dropWhile is_ws s)))"

text \<open>\<^verbatim>\<open>Array.prototype.join\<close> on an array of strings.\<close>

fun join :: "'a list \<Rightarrow> 'a list list \<Rightarrow> 'a list" where
  "join sep [] = []"
| "join sep [x] = x"
| "join sep (x # y # ys) = x @ sep @ join sep (y # ys)"

section \<open>Turn generation\<close>

text \<open>
  The answer of the chat-completion endpoint to one request: a completion, whose first
  choice may lack content and whose usage block may lack the token total, or an error
  (rejected promise).
\<close>

datatype completion =
    Completion (choice_content: "js_string option") (total_tokens: "nat option")
  | ProviderError

text \<open>
  \<^verbatim>\<open>getOpenAI\<close>: creates the client on first use; \<open>None\<close> is the thrown
  \<^verbatim>\<open>"OPENAI_API_KEY is not configured"\<close>.
\<close>

definition getOpenAI :: "process_env \<Rightarrow> orchestrator \<Rightarrow> orchestrator option" where
  "getOpenAI env st =
     (if \<not> openaiClient st then
        (if \<not> truthy (OPENAI_API_KEY env) then None
         else Some (st\<lparr>openaiClient := True\<rparr>))
      else Some st)"

text \<open>
  \<^verbatim>\<open>generateResponse(session)\<close>. \<open>llm\<close> is the provider: its answer to a list of
  messages. The result is the returned text, the session as mutated, and the state with
  its trace. A falsy \<^verbatim>\<open>content\<close> (absent or empty) and a falsy
  \<^verbatim>\<open>total_tokens\<close> (absent or zero) take the \<^verbatim>\<open>||\<close> default.
\<close>

definition generateResponse ::
  "process_env \<Rightarrow> (turn list \<Rightarrow> completion) \<Rightarrow> CallSession \<Rightarrow> orchestrator
     \<Rightarrow> js_string \<times> CallSession \<times> orchestrator" where
  "generateResponse env llm session st =
     (let recentHistory = slice_from (- 10) (conversationHistory session)
      in case getOpenAI env st of
           None \<Rightarrow> (fallbackMessage (agent session), session, emit (AiError (callId session)) st)
         | Some st1 \<Rightarrow>
             (let st2 = emit (ChatCompletionRequest recentHistory) st1
              in case llm recentHistory of
                   ProviderError \<Rightarrow>
                     (fallbackMessage (agent session), session, emit (AiError (callId session)) st2)
                 | Completion c u \<Rightarrow>
                     (let tokensUsed = (case u of None \<Rightarrow> 0 | Some n \<Rightarrow> int n);
                          session' = session\<lparr>creditsUsed :=
                                       creditsUsed session + ceil_div tokensUsed 100\<rparr>
                      in ((case c of None \<Rightarrow> fallbackMessage (agent session)
                                   | Some s \<Rightarrow> if s = [] then fallbackMessage (agent session) else s),
                          session', st2))))"

text \<open>The messages of the chat-completion requests recorded in a trace.\<close>

fun requests :: "event list \<Rightarrow> turn list list" where
  "requests [] = []"
| "requests (ChatCompletionRequest ms # es) = ms # requests es"
| "requests (e # es) = requests es"

section \<open>The transcription client\<close>

datatype error = DeepgramNotConfigured | DeepgramConnectFailed | NotConnected

definition createDeepgramSTT :: DeepgramSTTClient where
  "createDeepgramSTT = \<lparr>ws = False, isConnected = False\<rparr>"

definition isConfigured :: "process_env \<Rightarrow> bool" where
  "isConfigured env = truthy (DEEPGRAM_API_KEY env)"

text \<open>
  \<^verbatim>\<open>connect\<close>: \<open>opened\<close> says whether the socket reaches \<^verbatim>\<open>open\<close>; otherwise
  its \<^verbatim>\<open>error\<close> event rejects the promise. The socket object exists in both cases.
\<close>

definition connect ::
  "process_env \<Rightarrow> bool \<Rightarrow> DeepgramSTTClient \<Rightarrow> error option \<times> DeepgramSTTClient" where
  "connect env opened stt =
     (if \<not> isConfigured env then (Some DeepgramNotConfigured, stt)
      else if opened then (None, stt\<lparr>ws := True, isConnected := True\<rparr>)
      else (Some DeepgramConnectFailed, stt\<lparr>ws := True\<rparr>))"

definition connected :: "DeepgramSTTClient \<Rightarrow> bool" where
  "connected stt = isConnected stt"

definition sendAudio :: "DeepgramSTTClient \<Rightarrow> error option" where
  "sendAudio stt = (if \<not> isConnected stt \<or> \<not> ws stt then Some NotConnected else None)"

text \<open>
  A message of the transcription socket after \<^verbatim>\<open>JSON.parse\<close>, with
  \<^verbatim>\<open>parseTranscriptResult\<close> applied to a \<^verbatim>\<open>Results\<close> message; \<open>Malformed\<close> is a
  payload on which parsing throws, \<open>OtherMessage\<close> a type the client ignores.
\<close>

datatype stt_message =
    Results TranscriptResult
  | SpeechStarted
  | UtteranceEnd
  | Metadata
  | ErrorMessage
  | Malformed
  | OtherMessage

text \<open>The events of the client that have a handler in the orchestrator, in emission order.\<close>

datatype stt_event = Transcript TranscriptResult | FinalTranscript TranscriptResult
  | SpeechEnd | SttClientError

definition handleMessage :: "stt_message \<Rightarrow> stt_event list" where
  "handleMessage message =
     (case message of
        Results result \<Rightarrow>
          (if result_text result \<noteq> [] then
             [Transcript result]
             @ (if isFinal result then [FinalTranscript result] else [])
             @ (if speechFinal result then [SpeechEnd] else [])
           else [])
      | SpeechStarted \<Rightarrow> []
      | UtteranceEnd \<Rightarrow> []
      | Metadata \<Rightarrow> []
      | ErrorMessage \<Rightarrow> [SttClientError]
      | Malformed \<Rightarrow> [SttClientError]
      | OtherMessage \<Rightarrow> [])"

section \<open>The orchestrator\<close>

definition put_session :: "string \<Rightarrow> CallSession \<Rightarrow> orchestrator \<Rightarrow> orchestrator" where
  "put_session k s st = st\<lparr>activeSessions := (activeSessions st)(k \<mapsto> s)\<rparr>"

text \<open>A mutation of the session object registered under \<open>k\<close>.\<close>

definition upd_session :: "string \<Rightarrow> (CallSession \<Rightarrow> CallSession) \<Rightarrow> orchestrator \<Rightarrow> orchestrator" where
  "upd_session k f st =
     (case activeSessions st k of None \<Rightarrow> st | Some s \<Rightarrow> put_session k (f s) st)"

definition nl :: js_string where
  "nl = [0x0A]"

definition dq :: js_string where
  "dq = [0x22]"

definition buildSystemPrompt :: "AgentConfig \<Rightarrow> js_string" where
  "buildSystemPrompt a =
     (let rs = (if noLegal (rules a) then [js ''Never provide legal advice''] else [])
             @ (if noMedical (rules a) then [js ''Never provide medical advice''] else [])
             @ (if confirmBookings (rules a)
                then [js ''Always confirm booking details before finalizing''] else [])
             @ (if handoffOnConfusion (rules a)
                then [js ''If confused for more than 2 exchanges, offer to connect to a human'']
                else [])
      in js ''You are '' @ agent_name a @ js '', an AI voice assistant on a phone call.''
         @ nl @ nl
         @ js ''INSTRUCTIONS:'' @ nl @ instructions a @ nl @ nl
         @ js ''RULES:'' @ nl @ join nl (map (\<lambda>r. js ''- '' @ r) rs) @ nl @ nl
         @ js ''IMPORTANT VOICE GUIDELINES:'' @ nl
         @ js ''1. Keep responses SHORT (1-2 sentences max for phone)'' @ nl
         @ js ''2. Speak naturally with conversational fillers like '' @ dq @ js ''Sure'' @ dq
         @ js '', '' @ dq @ js ''Let me check'' @ dq @ js '', '' @ dq @ js ''Got it'' @ dq @ nl
         @ js ''3. Use simple, clear language'' @ nl
         @ js ''4. Ask one question at a time'' @ nl
         @ js ''5. Confirm understanding before moving on'' @ nl
         @ js ''6. If user is silent, politely check if they'' @ [0x27] @ js ''re still there''
         @ nl @ nl
         @ js ''When unsure, use this fallback: '' @ dq @ fallbackMessage a @ dq @ nl @ nl
         @ js ''Start the conversation with a warm greeting.'')"

text \<open>
  \<^verbatim>\<open>initializeSession\<close>. \<open>swCalls\<close> is the call table of the telephony client
  (\<^verbatim>\<open>signalwire.getCallState\<close>), \<open>opened\<close> the outcome of the transcription
  connect. The registrations made before the connect stay when it rejects; the client's
  \<^verbatim>\<open>error\<close> event reaches the handler that emits \<^verbatim>\<open>sttError\<close>. The session object
  is new: it gets the next number, recorded for the call identifier.
\<close>

definition initializeSession ::
  "process_env \<Rightarrow> (string \<rightharpoonup> CallState) \<Rightarrow> bool \<Rightarrow> int
     \<Rightarrow> string \<Rightarrow> string \<Rightarrow> string \<Rightarrow> AgentConfig \<Rightarrow> string option
     \<Rightarrow> orchestrator \<Rightarrow> (error + CallSession) \<times> orchestrator" where
  "initializeSession env swCalls opened now cid tid aid ag camp st =
     (let session = \<lparr>callId = cid, tenantId = tid, agentId = aid, campaignId = camp,
            agent = ag,
            callState = (case swCalls cid of Some cs \<Rightarrow> cs
               | None \<Rightarrow> \<lparr>cs_callId = cid, cs_status = Initiated, cs_direction = Outbound,
                   cs_to = [], cs_from = [], cs_startedAt = now, cs_durationSec = 0\<rparr>),
            conversationHistory = [\<lparr>role = System, content = buildSystemPrompt ag\<rparr>],
            creditsUsed = 0, startTime = now, isSpeaking = False, isListening = False,
            silenceStart = None, lastUserSpeech = None, outcome = None,
            transcriptSummary = []\<rparr>;
          st1 = st\<lparr>activeSessions := (activeSessions st)(cid \<mapsto> session),
                   audioBuffers := (audioBuffers st)(cid \<mapsto> \<lparr>chunks = [], totalDuration = 0\<rparr>),
                   ttsQueue := (ttsQueue st)(cid \<mapsto> []),
                   sessionIds := (sessionIds st)(cid \<mapsto> nextSessionId st),
                   nextSessionId := Suc (nextSessionId st)\<rparr>;
          stt = createDeepgramSTT;
          st2 = st1\<lparr>sttClients := (sttClients st1)(cid \<mapsto> stt)\<rparr>
      in if isConfigured env then
           (case connect env opened stt of
              (Some e, stt') \<Rightarrow>
                (Inl e, emit (SttError cid)
                   (emit (SttConnect cid) (st2\<lparr>sttClients := (sttClients st2)(cid \<mapsto> stt')\<rparr>)))
            | (None, stt') \<Rightarrow>
                (Inr session, emit (SessionInitialized cid)
                   (emit (SttConnect cid) (st2\<lparr>sttClients := (sttClients st2)(cid \<mapsto> stt')\<rparr>))))
         else (Inr session, emit (SessionInitialized cid) st2))"

text \<open>
  \<^verbatim>\<open>detectVoiceActivity\<close>: the mean of \<open>|b - 128|\<close> over the bytes exceeds 10. The
  quotient \<^verbatim>\<open>sum / audioData.length\<close> is compared without being rounded, so the test is
  \<open>sum > 10 * length\<close>; on the empty buffer the quotient is \<^verbatim>\<open>NaN\<close> and the test
  fails, as \<open>0 > 0\<close> does.
\<close>

definition detectVoiceActivity :: "frame \<Rightarrow> bool" where
  "detectVoiceActivity audioData =
     (let sum = sum_list (map (\<lambda>b. \<bar>uint b - 128\<bar>) audioData)
      in sum > 10 * int (length audioData))"

definition handleBargeIn :: "string \<Rightarrow> orchestrator \<Rightarrow> orchestrator" where
  "handleBargeIn cid st =
     (case activeSessions st cid of
        None \<Rightarrow> st
      | Some session \<Rightarrow>
          emit (BargeIn cid)
            ((put_session cid (session\<lparr>isSpeaking := False\<rparr>) st)
               \<lparr>ttsQueue := (ttsQueue st)(cid \<mapsto> [])\<rparr>))"

text \<open>The stats object returned by \<^verbatim>\<open>endCall\<close>.\<close>

record call_stats =
  stats_durationSec :: int
  stats_creditsUsed :: int
  stats_transcriptSummary :: js_string

definition signalwire_isConfigured :: "process_env \<Rightarrow> bool" where
  "signalwire_isConfigured env =
     (truthy (SIGNALWIRE_PROJECT_ID env) \<and> truthy (SIGNALWIRE_TOKEN env)
      \<and> truthy (SIGNALWIRE_SPACE_URL env))"

text \<open>
  \<^verbatim>\<open>endCall(callId, reason)\<close>. Whatever \<^verbatim>\<open>signalwire.endCall\<close> throws is caught and
  dropped, so only the request it makes (when configured) is recorded. \<open>SttDisconnect\<close>
  records the call of \<^verbatim>\<open>stt.disconnect()\<close>. With the session the record of which
  object is registered goes too.
\<close>

definition endCall ::
  "process_env \<Rightarrow> int \<Rightarrow> string \<Rightarrow> string \<Rightarrow> orchestrator \<Rightarrow> call_stats \<times> orchestrator" where
  "endCall env now cid reason st =
     (case activeSessions st cid of
        None \<Rightarrow>
          (\<lparr>stats_durationSec = 0, stats_creditsUsed = 0, stats_transcriptSummary = []\<rparr>, st)
      | Some session \<Rightarrow>
          (let st1 = (case sttClients st cid of
                        None \<Rightarrow> st
                      | Some stt \<Rightarrow>
                          emit (SttDisconnect cid) (st\<lparr>sttClients := (sttClients st)(cid := None)\<rparr>));
               durationSec = (now - startTime session) div 1000;
               summary = join nl (transcriptSummary session);
               st2 = (if signalwire_isConfigured env then emit (SignalwireEndCall cid) st1 else st1);
               st3 = st2\<lparr>activeSessions := (activeSessions st2)(cid := None),
                        audioBuffers := (audioBuffers st2)(cid := None),
                        ttsQueue := (ttsQueue st2)(cid := None),
                        sessionIds := (sessionIds st2)(cid := None)\<rparr>;
               st4 = emit (CallEnded cid (tenantId session) durationSec (creditsUsed session) reason) st3
           in (\<lparr>stats_durationSec = durationSec, stats_creditsUsed = creditsUsed session,
                stats_transcriptSummary = summary\<rparr>, st4)))"

text \<open>
  \<^verbatim>\<open>updateCallCredits(session)\<close>, for the session object registered under \<open>k\<close>.
  \<open>now\<close> is the clock at the first line, \<open>endNow\<close> the clock read by \<^verbatim>\<open>endCall\<close>.
  With an integral number of milliseconds \<open>d\<close>, \<^verbatim>\<open>Math.ceil(d / 1000 / 60)\<close> is
  \<open>ceil_div d 60000\<close> and \<^verbatim>\<open>d / 1000 >= 600\<close> is \<open>d \<ge> 600 * 1000\<close>.
\<close>

definition updateCallCredits ::
  "process_env \<Rightarrow> int \<Rightarrow> int \<Rightarrow> string \<Rightarrow> orchestrator \<Rightarrow> orchestrator" where
  "updateCallCredits env now endNow k st =
     (case activeSessions st k of
        None \<Rightarrow> st
      | Some session \<Rightarrow>
          (let durationMs = now - startTime session;
               durationMin = ceil_div durationMs 60000;
               newCredits = durationMin * CREDITS_PER_MINUTE;
               st1 = (if newCredits > creditsUsed session then
                        emit (CreditsDeducted (callId session) (tenantId session)
                                (newCredits - creditsUsed session) newCredits)
                          (put_session k (session\<lparr>creditsUsed := newCredits\<rparr>) st)
                      else st)
           in if durationMs \<ge> MAX_CALL_DURATION_SEC * 1000
              then snd (endCall env endNow (callId session) ''max_duration'' st1)
              else st1))"

text \<open>
  \<^verbatim>\<open>handleAudioInput(callId, audioData)\<close>. A zero \<^verbatim>\<open>silenceStart\<close> is falsy.
\<close>

definition handleAudioInput ::
  "process_env \<Rightarrow> int \<Rightarrow> int \<Rightarrow> string \<Rightarrow> frame \<Rightarrow> orchestrator \<Rightarrow> orchestrator" where
  "handleAudioInput env now endNow cid audioData st =
     (case activeSessions st cid of
        None \<Rightarrow> st
      | Some session \<Rightarrow>
          (case sttClients st cid of
             None \<Rightarrow> st
           | Some stt \<Rightarrow>
               if \<not> connected stt then st
               else
                 (let st1 = (if isSpeaking session \<and> detectVoiceActivity audioData
                             then handleBargeIn cid st else st);
                      st2 = (case sendAudio stt of
                               None \<Rightarrow> emit (SttSendAudio cid audioData) st1
                             | Some e \<Rightarrow> emit (AudioError cid) st1);
                      st3 = upd_session cid
                              (\<lambda>s. case silenceStart s of
                                      None \<Rightarrow> s
                                    | Some t \<Rightarrow>
                                        if t \<noteq> 0 \<and> now - t > SILENCE_THRESHOLD_MS \<and> \<not> isSpeaking s
                                        then s\<lparr>silenceStart := None\<rparr> else s) st2
                  in updateCallCredits env now endNow cid st3)))"

section \<open>Speech playback\<close>

text \<open>
  One step of the synthesis stream as the playback loop sees it: what the generator
  yields (an audio chunk, or a failure that makes the iteration throw), and whether
  \<^verbatim>\<open>handleBargeIn\<close> ran for this call while the loop was waiting for it.
\<close>

datatype tts_item = Chunk frame | StreamFailure

definition VOICE_PRESETS_RACHEL :: string where
  "VOICE_PRESETS_RACHEL = ''21m00Tcm4TlvDq8ikWAM''"

definition elevenlabs_isConfigured :: "process_env \<Rightarrow> bool" where
  "elevenlabs_isConfigured env = truthy (ELEVENLABS_API_KEY env)"

text \<open>
  The \<^verbatim>\<open>for await\<close> loop of \<^verbatim>\<open>speakResponse\<close>. The loop holds the session object,
  whose flag was set when playback began; should the object not be registered, no
  barge-in can reach it and the loop goes on.
\<close>

fun playback :: "string \<Rightarrow> (bool \<times> tts_item) list \<Rightarrow> orchestrator \<Rightarrow> orchestrator" where
  "playback cid [] st = st"
| "playback cid ((barge, item) # rest) st =
     (let st1 = (if barge then handleBargeIn cid st else st)
      in case item of
           StreamFailure \<Rightarrow> emit (TtsError cid) st1
         | Chunk chunk \<Rightarrow>
             (if (case activeSessions st1 cid of None \<Rightarrow> False | Some s \<Rightarrow> \<not> isSpeaking s)
              then st1
              else playback cid rest (emit (AudioOutput cid chunk) st1)))"

definition speakResponse ::
  "process_env \<Rightarrow> (bool \<times> tts_item) list \<Rightarrow> string \<Rightarrow> js_string \<Rightarrow> orchestrator
     \<Rightarrow> orchestrator" where
  "speakResponse env tts cid txt st =
     (case activeSessions st cid of
        None \<Rightarrow> st
      | Some session \<Rightarrow>
          (let st1 = emit (AiSpeaking cid txt) (put_session cid (session\<lparr>isSpeaking := True\<rparr>) st);
               st2 = (if \<not> elevenlabs_isConfigured env then
                        upd_session cid (\<lambda>s. s\<lparr>isSpeaking := False\<rparr>)
                          (emit (TtsNotConfigured cid txt) st1)
                      else
                        (let voice = (if voiceId (agent session) \<noteq> [] then voiceId (agent session)
                                      else VOICE_PRESETS_RACHEL)
                         in playback cid tts (emit (TtsStreamRequest voice txt) st1)))
           in emit (AiFinishedSpeaking cid) (upd_session cid (\<lambda>s. s\<lparr>isSpeaking := False\<rparr>) st2)))"

text \<open>The frames forwarded to the outbound audio sink of a call, in order.\<close>

fun forwarded :: "string \<Rightarrow> event list \<Rightarrow> frame list" where
  "forwarded cid [] = []"
| "forwarded cid (AudioOutput c f # es) = (if c = cid then f # forwarded cid es else forwarded cid es)"
| "forwarded cid (e # es) = forwarded cid es"

section \<open>Turn processing\<close>

definition processUserInput ::
  "process_env \<Rightarrow> (turn list \<Rightarrow> completion) \<Rightarrow> (bool \<times> tts_item) list \<Rightarrow> string
     \<Rightarrow> js_string \<Rightarrow> orchestrator \<Rightarrow> orchestrator" where
  "processUserInput env llm tts cid userText st =
     (case activeSessions st cid of
        None \<Rightarrow> st
      | Some session \<Rightarrow>
          (let s1 = session\<lparr>conversationHistory :=
                      conversationHistory session @ [\<lparr>role = User, content = userText\<rparr>]\<rparr>
           in case generateResponse env llm s1 st of
                (response, s2, st1) \<Rightarrow>
                  if response = [] then put_session cid s2 st1
                  else
                    (let s3 = s2\<lparr>conversationHistory :=
                                  conversationHistory s2 @ [\<lparr>role = Assistant, content = response\<rparr>],
                                transcriptSummary := transcriptSummary s2 @ [js ''AI: '' @ response]\<rparr>
                     in speakResponse env tts cid response (put_session cid s3 st1))))"

definition sendGreeting ::
  "process_env \<Rightarrow> (bool \<times> tts_item) list \<Rightarrow> string \<Rightarrow> orchestrator \<Rightarrow> orchestrator" where
  "sendGreeting env tts cid st =
     (case activeSessions st cid of
        None \<Rightarrow> st
      | Some session \<Rightarrow>
          (let g = greeting (agent session);
               s1 = session\<lparr>conversationHistory :=
                              conversationHistory session @ [\<lparr>role = Assistant, content = g\<rparr>],
                            transcriptSummary := transcriptSummary session @ [js ''AI: '' @ g]\<rparr>
           in speakResponse env tts cid g (put_session cid s1 st)))"

text \<open>
  A write of a handler to the session object it closed over, whose number is \<open>sref\<close>:
  it shows in the registry when that object is the one registered under the call
  identifier, and is a write to an object out of reach otherwise (after the call has ended,
  or after the call identifier has been initialised again).
\<close>

definition upd_closed_over ::
  "string \<Rightarrow> nat \<Rightarrow> (CallSession \<Rightarrow> CallSession) \<Rightarrow> orchestrator \<Rightarrow> orchestrator" where
  "upd_closed_over cid sref f st =
     (if sessionIds st cid = Some sref then upd_session cid f st else st)"

text \<open>
  The handlers installed by \<^verbatim>\<open>setupSTTHandlers(callId, stt, session)\<close>, where
  \<open>sref\<close> is the number of \<^verbatim>\<open>session\<close>. \<^verbatim>\<open>processUserInput\<close> looks the session up
  in the registry by the call identifier.
\<close>

definition on_stt_event ::
  "process_env \<Rightarrow> (turn list \<Rightarrow> completion) \<Rightarrow> (bool \<times> tts_item) list \<Rightarrow> int \<Rightarrow> string
     \<Rightarrow> nat \<Rightarrow> stt_event \<Rightarrow> orchestrator \<Rightarrow> orchestrator" where
  "on_stt_event env llm tts now cid sref ev st =
     (case ev of
        Transcript result \<Rightarrow>
          if result_text result = [] then st
          else emit (UserSpeaking cid (result_text result) (isFinal result))
                 (upd_closed_over cid sref
                    (\<lambda>s. s\<lparr>lastUserSpeech := Some now, silenceStart := None,
                           isListening := True\<rparr>) st)
      | FinalTranscript result \<Rightarrow>
          if trim (result_text result) = [] then st
          else processUserInput env llm tts cid (result_text result)
                 (emit (UserTranscript cid (result_text result))
                    (upd_closed_over cid sref (\<lambda>s. s\<lparr>transcriptSummary :=
                        transcriptSummary s @ [js ''User: '' @ result_text result]\<rparr>) st))
      | SpeechEnd \<Rightarrow>
          upd_closed_over cid sref
            (\<lambda>s. s\<lparr>isListening := False, silenceStart := Some now\<rparr>) st
      | SttClientError \<Rightarrow> emit (SttError cid) st)"

text \<open>
  A socket message of the transcription client that was set up for a call identifier
  with the session object of number \<open>sref\<close>, through to the handlers.
\<close>

definition on_stt_message ::
  "process_env \<Rightarrow> (turn list \<Rightarrow> completion) \<Rightarrow> (bool \<times> tts_item) list \<Rightarrow> int \<Rightarrow> string
     \<Rightarrow> nat \<Rightarrow> stt_message \<Rightarrow> orchestrator \<Rightarrow> orchestrator" where
  "on_stt_message env llm tts now cid sref message st =
     fold (on_stt_event env llm tts now cid sref) (handleMessage message) st"

section \<open>Runs of the orchestrator\<close>

text \<open>
  The public operations and the deliveries of the transcription socket, with the
  answers of the services they call, and a run of them from a state.
\<close>

datatype op =
    InitializeSession bool int string string string AgentConfig "string option"
  | HandleAudioInput int int string frame
  | SttMessage "turn list \<Rightarrow> completion" "(bool \<times> tts_item) list" int string nat stt_message
  | SendGreeting "(bool \<times> tts_item) list" string
  | EndCall int string string

fun step :: "process_env \<Rightarrow> (string \<rightharpoonup> CallState) \<Rightarrow> op \<Rightarrow> orchestrator \<Rightarrow> orchestrator" where
  "step env swCalls (InitializeSession opened now cid tid aid ag camp) st =
     snd (initializeSession env swCalls opened now cid tid aid ag camp st)"
| "step env swCalls (HandleAudioInput now endNow cid audioData) st =
     handleAudioInput env now endNow cid audioData st"
| "step env swCalls (SttMessage llm tts now cid sref message) st =
     on_stt_message env llm tts now cid sref message st"
| "step env swCalls (SendGreeting tts cid) st = sendGreeting env tts cid st"
| "step env swCalls (EndCall now cid reason) st = snd (endCall env now cid reason st)"

definition run :: "process_env \<Rightarrow> (string \<rightharpoonup> CallState) \<Rightarrow> op list \<Rightarrow> orchestrator \<Rightarrow> orchestrator" where
  "run env swCalls ops st = fold (step env swCalls) ops st"

text \<open>How often the transcription client of a call was told to disconnect.\<close>

definition released :: "string \<Rightarrow> orchestrator \<Rightarrow> nat" where
  "released cid st = count_list (trace st) (SttDisconnect cid)"

text \<open>
  \<^verbatim>\<open>endCall\<close> invoked once per element of a list of (clock, reason) pairs; the stats
  objects returned, in order, and the final state.
\<close>

fun endCalls ::
  "process_env \<Rightarrow> string \<Rightarrow> (int \<times> string) list \<Rightarrow> orchestrator \<Rightarrow> call_stats list \<times> orchestrator" where
  "endCalls env cid [] st = ([], st)"
| "endCalls env cid ((now, reason) # rest) st =
     (case endCall env now cid reason st of
        (stats, st1) \<Rightarrow> (case endCalls env cid rest st1 of (later, st2) \<Rightarrow> (stats # later, st2)))"

section \<open>Metering logs\<close>

text \<open>
  The two events that write the credit counter of the session registered under \<open>k\<close>: an
  inbound frame reaching \<^verbatim>\<open>updateCallCredits\<close> at a clock value, and a turn generation
  with the provider's answer.
\<close>

datatype meter_event = InboundFrame int | TurnGeneration completion

definition meter_step :: "process_env \<Rightarrow> string \<Rightarrow> meter_event \<Rightarrow> orchestrator \<Rightarrow> orchestrator" where
  "meter_step env k ev st =
     (case ev of
        InboundFrame now \<Rightarrow> updateCallCredits env now now k st
      | TurnGeneration c \<Rightarrow>
          (case activeSessions st k of
             None \<Rightarrow> st
           | Some session \<Rightarrow>
               (case generateResponse env (\<lambda>_. c) session st of
                  (response, session', st') \<Rightarrow> put_session k session' st')))"

text \<open>
  The total of the specification, computed from the log alone: for every time-based update
  the elapsed minutes rounded up times the rate, plus for every turn generation the
  resource units over the unit size rounded up.
\<close>

fun spec_time_credits :: "int \<Rightarrow> meter_event list \<Rightarrow> int" where
  "spec_time_credits start [] = 0"
| "spec_time_credits start (InboundFrame now # evs) =
     ceil_div (now - start) 60000 * CREDITS_PER_MINUTE + spec_time_credits start evs"
| "spec_time_credits start (TurnGeneration c # evs) = spec_time_credits start evs"

fun turn_credits :: "meter_event list \<Rightarrow> int" where
  "turn_credits [] = 0"
| "turn_credits (TurnGeneration (Completion c (Some n)) # evs) =
     ceil_div (int n) 100 + turn_credits evs"
| "turn_credits (ev # evs) = turn_credits evs"

definition spec_creditsUsed :: "int \<Rightarrow> meter_event list \<Rightarrow> int" where
  "spec_creditsUsed start log = spec_time_credits start log + turn_credits log"

text \<open>The highest time-based credit level that a log reaches above a given level.\<close>

fun time_level :: "int \<Rightarrow> int \<Rightarrow> meter_event list \<Rightarrow> int" where
  "time_level start c [] = c"
| "time_level start c (InboundFrame now # evs) =
     time_level start (max c (ceil_div (now - start) 60000 * CREDITS_PER_MINUTE)) evs"
| "time_level start c (TurnGeneration r # evs) = time_level start c evs"

fun is_frame :: "meter_event \<Rightarrow> bool" where
  "is_frame (InboundFrame now) = True"
| "is_frame (TurnGeneration c) = False"

section \<open>What a playback should forward\<close>

text \<open>
  The chunks of a synthesis stream, and those among them that come before the first step
  at which a barge-in has happened or the stream fails.
\<close>

fun chunks_of :: "(bool \<times> tts_item) list \<Rightarrow> frame list" where
  "chunks_of [] = []"
| "chunks_of ((b, Chunk c) # rest) = c # chunks_of rest"
| "chunks_of ((b, StreamFailure) # rest) = chunks_of rest"

fun played :: "(bool \<times> tts_item) list \<Rightarrow> frame list" where
  "played [] = []"
| "played ((barge, item) # rest) =
     (if barge then [] else case item of StreamFailure \<Rightarrow> [] | Chunk c \<Rightarrow> c # played rest)"

section \<open>Shape of a conversation history\<close>

text \<open>
  The history of a session begins with the system turn built from its agent, and no
  later turn has the system role.
\<close>

definition history_ok :: "CallSession \<Rightarrow> bool" where
  "history_ok s =
     (conversationHistory s \<noteq> []
      \<and> hd (conversationHistory s) = \<lparr>role = System, content = buildSystemPrompt (agent s)\<rparr>
      \<and> list_all (\<lambda>t. role t \<noteq> System) (tl (conversationHistory s)))"

definition sessions_ok :: "orchestrator \<Rightarrow> bool" where
  "sessions_ok st = (\<forall>k s. activeSessions st k = Some s \<longrightarrow> history_ok s)"

section \<open>Example inputs\<close>

definition example_agent :: AgentConfig where
  "example_agent = \<lparr>agent_id = ''agent-X'', agent_name = js ''Ava'', language = ''en-US'',
     instructions = js ''Answer questions about opening hours.'', greeting = js ''Hello!'',
     fallbackMessage = js ''Sorry, could you repeat that?'', voiceId = [],
     latencyMode = FAST,
     rules = \<lparr>noLegal = True, noMedical = False, confirmBookings = False,
               handoffOnConfusion = False\<rparr>\<rparr>"

text \<open>No credential is set: every collaborator is unconfigured.\<close>

definition bare_env :: process_env where
  "bare_env = \<lparr>OPENAI_API_KEY = None, DEEPGRAM_API_KEY = None, ELEVENLABS_API_KEY = None,
     SIGNALWIRE_PROJECT_ID = None, SIGNALWIRE_TOKEN = None, SIGNALWIRE_SPACE_URL = None\<rparr>"

text \<open>Every credential is set.\<close>

definition full_env :: process_env where
  "full_env = \<lparr>OPENAI_API_KEY = Some ''sk'', DEEPGRAM_API_KEY = Some ''dg'',
     ELEVENLABS_API_KEY = Some ''el'', SIGNALWIRE_PROJECT_ID = Some ''p'',
     SIGNALWIRE_TOKEN = Some ''t'', SIGNALWIRE_SPACE_URL = Some ''u''\<rparr>"

text \<open>A session as \<^verbatim>\<open>initializeSession\<close> leaves it at clock 0, with a short prompt.\<close>

definition example_session :: CallSession where
  "example_session = \<lparr>callId = ''call-1'', tenantId = ''tenant-A'', agentId = ''agent-X'',
     campaignId = None, agent = example_agent,
     callState = \<lparr>cs_callId = ''call-1'', cs_status = Initiated, cs_direction = Outbound,
       cs_to = [], cs_from = [], cs_startedAt = 0, cs_durationSec = 0\<rparr>,
     conversationHistory = [\<lparr>role = System, content = js ''prompt''\<rparr>],
     creditsUsed = 0, startTime = 0, isSpeaking = False, isListening = False,
     silenceStart = None, lastUserSpeech = None, outcome = None, transcriptSummary = []\<rparr>"

text \<open>
  The orchestrator holding that session as its first session object, its transcription
  client connected.
\<close>

definition example_state :: orchestrator where
  "example_state = \<lparr>activeSessions = [''call-1'' \<mapsto> example_session],
     sttClients = [''call-1'' \<mapsto> \<lparr>ws = True, isConnected = True\<rparr>],
     audioBuffers = [''call-1'' \<mapsto> \<lparr>chunks = [], totalDuration = 0\<rparr>],
     ttsQueue = [''call-1'' \<mapsto> []], openaiClient = False, trace = [],
     sessionIds = [''call-1'' \<mapsto> 0], nextSessionId = 1\<rparr>"

text \<open>
  A final, speech-final transcript, answered by the provider and played as one chunk.
\<close>

definition spoken_turn :: op where
  "spoken_turn = SttMessage (\<lambda>_. Completion (Some (js ''ok'')) (Some 10))
     [(False, Chunk [0x80])] 1000 ''call-1'' 0
     (Results \<lparr>result_text = js ''hi'', isFinal = True, speechFinal = True\<rparr>)"

text \<open>A call of five such transcripts, and of six.\<close>

definition five_turns :: "op list" where
  "five_turns = InitializeSession True 0 ''call-1'' ''tenant-A'' ''agent-X'' example_agent None
     # replicate 5 spoken_turn"

definition long_call :: "op list" where
  "long_call = InitializeSession True 0 ''call-1'' ''tenant-A'' ''agent-X'' example_agent None
     # replicate 6 spoken_turn"

text \<open>A log in which a turn generation falls between two time-based updates.\<close>

definition mixed_log :: "meter_event list" where
  "mixed_log = [InboundFrame 30000, TurnGeneration (Completion (Some (js ''ok'')) (Some 300)),
                InboundFrame 90000]"

section \<open>Properties\<close>

subsection \<open>State helpers\<close>

lemma length_slice_from_neg: "0 < k \<Longrightarrow> length (slice_from (- k) xs) \<le> nat k"
  by (auto simp: slice_from_def Let_def)

lemma requests_append [simp]: "requests (es @ fs) = requests es @ requests fs"
  by (induction es rule: requests.induct) auto

lemma trace_emit [simp]: "trace (emit e st) = trace st @ [e]"
  by (simp add: emit_def)

lemma emit_fields [simp]:
  "activeSessions (emit e st) = activeSessions st"
  "sttClients (emit e st) = sttClients st"
  "audioBuffers (emit e st) = audioBuffers st"
  "ttsQueue (emit e st) = ttsQueue st"
  "openaiClient (emit e st) = openaiClient st"
  "sessionIds (emit e st) = sessionIds st"
  "nextSessionId (emit e st) = nextSessionId st"
  by (simp_all add: emit_def)

lemma put_session_fields [simp]:
  "activeSessions (put_session k s st) = (activeSessions st)(k \<mapsto> s)"
  "sttClients (put_session k s st) = sttClients st"
  "audioBuffers (put_session k s st) = audioBuffers st"
  "ttsQueue (put_session k s st) = ttsQueue st"
  "openaiClient (put_session k s st) = openaiClient st"
  "trace (put_session k s st) = trace st"
  "sessionIds (put_session k s st) = sessionIds st"
  "nextSessionId (put_session k s st) = nextSessionId st"
  by (simp_all add: put_session_def)

lemma upd_session_fields [simp]:
  "sttClients (upd_session k f st) = sttClients st"
  "audioBuffers (upd_session k f st) = audioBuffers st"
  "ttsQueue (upd_session k f st) = ttsQueue st"
  "openaiClient (upd_session k f st) = openaiClient st"
  "trace (upd_session k f st) = trace st"
  "sessionIds (upd_session k f st) = sessionIds st"
  "nextSessionId (upd_session k f st) = nextSessionId st"
  by (auto simp: upd_session_def split: option.splits)

lemma js_Nil [simp]: "js s = [] \<longleftrightarrow> s = []"
  by (simp add: js_def)

lemma upd_session_live:
  "activeSessions st k = Some s \<Longrightarrow> upd_session k f st = put_session k (f s) st"
  by (simp add: upd_session_def)

lemma upd_session_absent: "activeSessions st k = None \<Longrightarrow> upd_session k f st = st"
  by (simp add: upd_session_def)

lemma upd_session_other:
  "j \<noteq> k \<Longrightarrow> activeSessions (upd_session k f st) j = activeSessions st j"
  by (simp add: upd_session_def split: option.splits)

subsection \<open>Barge-in and playback\<close>

lemma forwarded_append [simp]: "forwarded cid (es @ fs) = forwarded cid es @ forwarded cid fs"
  by (induction cid es rule: forwarded.induct) auto

lemma handleBargeIn_live:
  "activeSessions st cid = Some s \<Longrightarrow>
     activeSessions (handleBargeIn cid st) cid = Some (s\<lparr>isSpeaking := False\<rparr>)"
  by (simp add: handleBargeIn_def)

lemma handleBargeIn_forwarded:
  "forwarded cid (trace (handleBargeIn cid st)) = forwarded cid (trace st)"
  by (simp add: handleBargeIn_def split: option.splits)

lemma playback_forwarded:
  "activeSessions st cid = Some s \<Longrightarrow> isSpeaking s \<Longrightarrow>
     forwarded cid (trace (playback cid tts st)) = forwarded cid (trace st) @ played tts"
proof (induction tts arbitrary: st s)
  case Nil
  then show ?case by simp
next
  case (Cons x tts)
  obtain barge item where x: "x = (barge, item)" by (cases x)
  show ?case
  proof (cases barge)
    case True
    with Cons.prems x show ?thesis
      by (cases item) (simp_all add: handleBargeIn_live handleBargeIn_forwarded)
  next
    case False
    show ?thesis
    proof (cases item)
      case StreamFailure
      with False x show ?thesis by (simp add:)
    next
      case (Chunk c)
      have "forwarded cid (trace (playback cid tts (emit (AudioOutput cid c) st)))
            = forwarded cid (trace (emit (AudioOutput cid c) st)) @ played tts"
        using Cons.prems by (intro Cons.IH[of _ s]) simp_all
      with False x Chunk Cons.prems show ?thesis by (simp add:)
    qed
  qed
qed

lemma length_played: "k < length tts \<Longrightarrow> fst (tts ! k) \<Longrightarrow> length (played tts) \<le> k"
proof (induction tts arbitrary: k)
  case Nil
  then show ?case by simp
next
  case (Cons x tts)
  obtain barge item where x: "x = (barge, item)" by (cases x)
  show ?case
  proof (cases k)
    case 0
    with Cons.prems x show ?thesis by simp
  next
    case (Suc j)
    with Cons.prems have "length (played tts) \<le> j" by (intro Cons.IH) simp_all
    with Suc x show ?thesis by (simp split: tts_item.splits)
  qed
qed

lemma played_take: "played tts = take (length (played tts)) (chunks_of tts)"
  by (induction tts rule: played.induct) (auto split: tts_item.splits)



lemma upd_session_at:
  "activeSessions (upd_session k f st) k = map_option f (activeSessions st k)"
  by (simp add: upd_session_def split: option.splits)

lemma handleBargeIn_at:
  "activeSessions (handleBargeIn cid st) cid
     = map_option (\<lambda>s. s\<lparr>isSpeaking := False\<rparr>) (activeSessions st cid)"
  by (simp add: handleBargeIn_def split: option.splits)

lemma handleBargeIn_other:
  "j \<noteq> cid \<Longrightarrow> activeSessions (handleBargeIn cid st) j = activeSessions st j"
  by (simp add: handleBargeIn_def split: option.splits)

lemma handleBargeIn_requests: "requests (trace (handleBargeIn cid st)) = requests (trace st)"
  by (simp add: handleBargeIn_def split: option.splits)

lemma handleBargeIn_fields [simp]:
  "sttClients (handleBargeIn cid st) = sttClients st"
  "openaiClient (handleBargeIn cid st) = openaiClient st"
  "sessionIds (handleBargeIn cid st) = sessionIds st"
  by (simp_all add: handleBargeIn_def split: option.splits)

lemma playback_at:
  "map_option (\<lambda>s. s\<lparr>isSpeaking := False\<rparr>) (activeSessions (playback cid tts st) cid)
     = map_option (\<lambda>s. s\<lparr>isSpeaking := False\<rparr>) (activeSessions st cid)"
proof (induction tts arbitrary: st)
  case Nil
  show ?case by simp
next
  case (Cons x tts)
  obtain barge item where x: "x = (barge, item)" by (cases x)
  have h: "map_option (\<lambda>s. s\<lparr>isSpeaking := False\<rparr>) (activeSessions (handleBargeIn cid st) cid)
     = map_option (\<lambda>s. s\<lparr>isSpeaking := False\<rparr>) (activeSessions st cid)"
    by (cases "activeSessions st cid") (simp_all add: handleBargeIn_at)
  show ?case
    by (cases item) (simp_all add: x Cons.IH Let_def h)
qed

lemma playback_other:
  "j \<noteq> cid \<Longrightarrow> activeSessions (playback cid tts st) j = activeSessions st j"
proof (induction tts arbitrary: st)
  case Nil
  show ?case by simp
next
  case (Cons x tts)
  obtain barge item where x: "x = (barge, item)" by (cases x)
  show ?case using Cons.prems
    by (cases item) (simp_all add: x Cons.IH Let_def handleBargeIn_other)
qed

lemma playback_requests: "requests (trace (playback cid tts st)) = requests (trace st)"
proof (induction tts arbitrary: st)
  case Nil
  show ?case by simp
next
  case (Cons x tts)
  obtain barge item where x: "x = (barge, item)" by (cases x)
  show ?case
    by (cases item) (simp_all add: x Cons.IH handleBargeIn_requests Let_def)
qed

lemma playback_sttClients [simp]: "sttClients (playback cid tts st) = sttClients st"
proof (induction tts arbitrary: st)
  case Nil
  show ?case by simp
next
  case (Cons x tts)
  obtain barge item where x: "x = (barge, item)" by (cases x)
  show ?case
    by (cases item) (simp_all add: x Cons.IH Let_def)
qed

lemma playback_openaiClient [simp]: "openaiClient (playback cid tts st) = openaiClient st"
proof (induction tts arbitrary: st)
  case Nil
  show ?case by simp
next
  case (Cons x tts)
  obtain barge item where x: "x = (barge, item)" by (cases x)
  show ?case
    by (cases item) (simp_all add: x Cons.IH Let_def)
qed

lemma playback_sessionIds [simp]: "sessionIds (playback cid tts st) = sessionIds st"
proof (induction tts arbitrary: st)
  case Nil
  show ?case by simp
next
  case (Cons x tts)
  obtain barge item where x: "x = (barge, item)" by (cases x)
  show ?case
    by (cases item) (simp_all add: x Cons.IH Let_def)
qed

lemma speakResponse_absent:
  "activeSessions st cid = None \<Longrightarrow> speakResponse env tts cid txt st = st"
  by (simp add: speakResponse_def)

lemma speakResponse_at:
  "activeSessions (speakResponse env tts cid txt st) cid
     = map_option (\<lambda>s. s\<lparr>isSpeaking := False\<rparr>) (activeSessions st cid)"
proof (cases "activeSessions st cid")
  case None
  then show ?thesis by (simp add: speakResponse_absent)
next
  case (Some s)
  show ?thesis
  proof (cases "elevenlabs_isConfigured env")
    case False
    then show ?thesis using Some
      by (simp add: speakResponse_def Let_def upd_session_at)
  next
    case True
    have key: "activeSessions (upd_session cid (\<lambda>s. s\<lparr>isSpeaking := False\<rparr>)
                  (playback cid tts st')) cid
          = map_option (\<lambda>s. s\<lparr>isSpeaking := False\<rparr>) (activeSessions st' cid)" for st'
      by (simp only: upd_session_at playback_at)
    show ?thesis using Some True
      by (simp add: speakResponse_def Let_def key)
  qed
qed

lemma speakResponse_other:
  "j \<noteq> cid \<Longrightarrow> activeSessions (speakResponse env tts cid txt st) j = activeSessions st j"
  by (simp add: speakResponse_def Let_def upd_session_other playback_other split: option.splits)

lemma speakResponse_requests:
  "requests (trace (speakResponse env tts cid txt st)) = requests (trace st)"
  by (simp add: speakResponse_def Let_def playback_requests split: option.splits)

lemma speakResponse_fields [simp]:
  "sttClients (speakResponse env tts cid txt st) = sttClients st"
  "openaiClient (speakResponse env tts cid txt st) = openaiClient st"
  "sessionIds (speakResponse env tts cid txt st) = sessionIds st"
  by (simp_all add: speakResponse_def Let_def split: option.splits)

subsection \<open>Ending and creating sessions\<close>

lemma endCall_absent:
  "activeSessions st cid = None \<Longrightarrow>
     endCall env now cid reason st =
       (\<lparr>stats_durationSec = 0, stats_creditsUsed = 0, stats_transcriptSummary = []\<rparr>, st)"
  by (simp add: endCall_def)

lemma endCall_live:
  assumes "activeSessions st cid = Some s"
  shows "fst (endCall env now cid reason st) =
           \<lparr>stats_durationSec = (now - startTime s) div 1000, stats_creditsUsed = creditsUsed s,
            stats_transcriptSummary = join nl (transcriptSummary s)\<rparr>"
    and "activeSessions (snd (endCall env now cid reason st)) = (activeSessions st)(cid := None)"
    and "sttClients (snd (endCall env now cid reason st)) = (sttClients st)(cid := None)"
    and "released cid (snd (endCall env now cid reason st))
           = released cid st + (if sttClients st cid = None then 0 else 1)"
  using assms by (auto simp: endCall_def Let_def released_def split: option.splits)

lemma endCalls_absent:
  "activeSessions st cid = None \<Longrightarrow>
     endCalls env cid calls st =
       (replicate (length calls)
          \<lparr>stats_durationSec = 0, stats_creditsUsed = 0, stats_transcriptSummary = []\<rparr>, st)"
  by (induction calls arbitrary: st) (auto simp: endCall_absent)


lemma initializeSession_result:
  "fst (initializeSession env swCalls opened now cid tid aid ag camp st)
     = (if isConfigured env \<and> \<not> opened then Inl DeepgramConnectFailed
        else Inr \<lparr>callId = cid, tenantId = tid, agentId = aid, campaignId = camp,
            agent = ag,
            callState = (case swCalls cid of Some cs \<Rightarrow> cs
               | None \<Rightarrow> \<lparr>cs_callId = cid, cs_status = Initiated, cs_direction = Outbound,
                   cs_to = [], cs_from = [], cs_startedAt = now, cs_durationSec = 0\<rparr>),
            conversationHistory = [\<lparr>role = System, content = buildSystemPrompt ag\<rparr>],
            creditsUsed = 0, startTime = now, isSpeaking = False, isListening = False,
            silenceStart = None, lastUserSpeech = None, outcome = None,
            transcriptSummary = []\<rparr>)"
  by (simp add: initializeSession_def Let_def connect_def)

lemma initializeSession_sessions:
  "activeSessions (snd (initializeSession env swCalls opened now cid tid aid ag camp st))
     = (activeSessions st)(cid \<mapsto> \<lparr>callId = cid, tenantId = tid, agentId = aid, campaignId = camp,
            agent = ag,
            callState = (case swCalls cid of Some cs \<Rightarrow> cs
               | None \<Rightarrow> \<lparr>cs_callId = cid, cs_status = Initiated, cs_direction = Outbound,
                   cs_to = [], cs_from = [], cs_startedAt = now, cs_durationSec = 0\<rparr>),
            conversationHistory = [\<lparr>role = System, content = buildSystemPrompt ag\<rparr>],
            creditsUsed = 0, startTime = now, isSpeaking = False, isListening = False,
            silenceStart = None, lastUserSpeech = None, outcome = None,
            transcriptSummary = []\<rparr>)"
  by (simp add: initializeSession_def Let_def connect_def)

lemma initializeSession_openaiClient [simp]:
  "openaiClient (snd (initializeSession env swCalls opened now cid tid aid ag camp st))
     = openaiClient st"
  by (simp add: initializeSession_def Let_def connect_def)

lemma initializeSession_requests [simp]:
  "requests (trace (snd (initializeSession env swCalls opened now cid tid aid ag camp st)))
     = requests (trace st)"
  by (simp add: initializeSession_def Let_def connect_def)

subsection \<open>Generation and turn processing\<close>

lemma generateResponse_state [simp]:
  "activeSessions (snd (snd (generateResponse env llm s st))) = activeSessions st"
  "sttClients (snd (snd (generateResponse env llm s st))) = sttClients st"
  "sessionIds (snd (snd (generateResponse env llm s st))) = sessionIds st"
  by (simp_all add: generateResponse_def getOpenAI_def Let_def
        split: option.splits completion.splits)

lemma generateResponse_session:
  "fst (snd (generateResponse env llm s st))
     = s\<lparr>creditsUsed := creditsUsed (fst (snd (generateResponse env llm s st)))\<rparr>"
  by (simp add: generateResponse_def Let_def split: option.splits completion.splits)

lemma generateResponse_requests:
  "requests (trace (snd (snd (generateResponse env llm s st))))
     = requests (trace st)
       @ (if getOpenAI env st = None then [] else [slice_from (- 10) (conversationHistory s)])"
  by (simp add: generateResponse_def Let_def getOpenAI_def split: option.splits completion.splits)

lemma generateResponse_fails:
  "getOpenAI env st = None \<or> llm (slice_from (- 10) (conversationHistory s)) = ProviderError
   \<Longrightarrow> fst (generateResponse env llm s st) = fallbackMessage (agent s)
       \<and> fst (snd (generateResponse env llm s st)) = s"
  by (auto simp: generateResponse_def Let_def split: option.splits completion.splits)

lemma processUserInput_absent:
  "activeSessions st cid = None \<Longrightarrow> processUserInput env llm tts cid userText st = st"
  by (simp add: processUserInput_def)

lemma processUserInput_at:
  assumes "activeSessions st cid = Some s"
  shows "activeSessions (processUserInput env llm tts cid userText st) cid
     = (let s1 = s\<lparr>conversationHistory :=
                     conversationHistory s @ [\<lparr>role = User, content = userText\<rparr>]\<rparr>;
            response = fst (generateResponse env llm s1 st);
            s2 = fst (snd (generateResponse env llm s1 st))
        in if response = [] then Some s2
           else Some (s2\<lparr>conversationHistory :=
                          conversationHistory s2 @ [\<lparr>role = Assistant, content = response\<rparr>],
                        transcriptSummary := transcriptSummary s2 @ [js ''AI: '' @ response],
                        isSpeaking := False\<rparr>))"
  using assms
  by (simp add: processUserInput_def Let_def speakResponse_at split: prod.splits)

lemma processUserInput_other:
  "j \<noteq> cid \<Longrightarrow> activeSessions (processUserInput env llm tts cid userText st) j
     = activeSessions st j"
proof (cases "activeSessions st cid")
  case None
  then show ?thesis by (simp add: processUserInput_absent)
next
  case (Some s)
  assume j: "j \<noteq> cid"
  let ?s1 = "s\<lparr>conversationHistory :=
                 conversationHistory s @ [\<lparr>role = User, content = userText\<rparr>]\<rparr>"
  obtain r s2 st1 where g: "generateResponse env llm ?s1 st = (r, s2, st1)"
    by (cases "generateResponse env llm ?s1 st") auto
  have a: "activeSessions st1 = activeSessions st"
    using generateResponse_state(1)[of env llm ?s1 st] g by simp
  show ?thesis using Some j g a
    by (simp add: processUserInput_def Let_def speakResponse_other)
qed

lemma processUserInput_requests:
  "requests (trace (processUserInput env llm tts cid userText st))
     = requests (trace st)
       @ (case activeSessions st cid of
            None \<Rightarrow> []
          | Some s \<Rightarrow>
              if getOpenAI env st = None then []
              else [slice_from (- 10)
                      (conversationHistory s @ [\<lparr>role = User, content = userText\<rparr>])])"
proof (cases "activeSessions st cid")
  case None
  then show ?thesis by (simp add: processUserInput_absent)
next
  case (Some s)
  let ?s1 = "s\<lparr>conversationHistory :=
                 conversationHistory s @ [\<lparr>role = User, content = userText\<rparr>]\<rparr>"
  obtain r s2 st1 where g: "generateResponse env llm ?s1 st = (r, s2, st1)"
    by (cases "generateResponse env llm ?s1 st") auto
  have a: "requests (trace st1) = requests (trace st)
       @ (if getOpenAI env st = None then [] else [slice_from (- 10) (conversationHistory ?s1)])"
    using generateResponse_requests[of env llm ?s1 st] g by simp
  show ?thesis using Some g a
    by (simp add: processUserInput_def Let_def speakResponse_requests)
qed

lemma upd_closed_over_fields [simp]:
  "sttClients (upd_closed_over cid sref f st) = sttClients st"
  "openaiClient (upd_closed_over cid sref f st) = openaiClient st"
  "trace (upd_closed_over cid sref f st) = trace st"
  "sessionIds (upd_closed_over cid sref f st) = sessionIds st"
  by (simp_all add: upd_closed_over_def)

lemma upd_closed_over_at:
  "activeSessions (upd_closed_over cid sref f st) cid
     = (if sessionIds st cid = Some sref then map_option f (activeSessions st cid)
        else activeSessions st cid)"
  by (simp add: upd_closed_over_def upd_session_at)

lemma upd_closed_over_project:
  assumes "\<And>s. p (f s) = p s"
  shows "map_option p (activeSessions (upd_closed_over cid sref f st) cid)
           = map_option p (activeSessions st cid)"
  by (simp add: upd_closed_over_at option.map_comp comp_def assms)

lemma processUserInput_sessionIds [simp]:
  "sessionIds (processUserInput env llm tts cid userText st) = sessionIds st"
  by (simp add: processUserInput_def Let_def case_prod_beta split: option.splits)


lemma on_stt_event_sessionIds [simp]:
  "sessionIds (on_stt_event env llm tts now cid sref ev st) = sessionIds st"
  by (cases ev) (simp_all add: on_stt_event_def)

lemma on_stt_event_history:
  "map_option conversationHistory
     (activeSessions (on_stt_event env llm tts now cid sref ev st) cid)
     = (case ev of
          FinalTranscript result \<Rightarrow>
            if trim (result_text result) = [] then
              map_option conversationHistory (activeSessions st cid)
            else map_option conversationHistory
                   (activeSessions (processUserInput env llm tts cid (result_text result)
                      (emit (UserTranscript cid (result_text result))
                         (upd_closed_over cid sref (\<lambda>s. s\<lparr>transcriptSummary :=
                              transcriptSummary s @ [js ''User: '' @ result_text result]\<rparr>)
                            st))) cid)
        | _ \<Rightarrow> map_option conversationHistory (activeSessions st cid))"
  by (cases ev) (simp_all add: on_stt_event_def upd_closed_over_project)

lemma on_stt_event_requests_other:
  "(\<forall>r. ev \<noteq> FinalTranscript r) \<Longrightarrow>
     requests (trace (on_stt_event env llm tts now cid sref ev st)) = requests (trace st)"
  by (cases ev) (simp_all add: on_stt_event_def)

lemma getOpenAI_None:
  "getOpenAI env st = None \<longleftrightarrow> \<not> openaiClient st \<and> \<not> truthy (OPENAI_API_KEY env)"
  by (simp add: getOpenAI_def)

lemma trim_Nil: "trim [] = []"
  by (simp add: trim_def)

subsection \<open>The shape of histories is invariant\<close>

lemma history_ok_snoc:
  "history_ok s \<Longrightarrow> agent s' = agent s \<Longrightarrow> r \<noteq> System
     \<Longrightarrow> conversationHistory s' = conversationHistory s @ [\<lparr>role = r, content = c\<rparr>]
     \<Longrightarrow> history_ok s'"
  by (auto simp: history_ok_def)

lemma sessions_okI:
  "(\<And>k s. activeSessions st k = Some s \<Longrightarrow> history_ok s) \<Longrightarrow> sessions_ok st"
  by (simp add: sessions_ok_def)

lemma sessions_okD: "sessions_ok st \<Longrightarrow> activeSessions st k = Some s \<Longrightarrow> history_ok s"
  by (simp add: sessions_ok_def)

lemma sessions_ok_emit [simp]: "sessions_ok (emit e st) = sessions_ok st"
  by (simp add: sessions_ok_def)

lemma sessions_ok_put:
  "sessions_ok st \<Longrightarrow> history_ok s \<Longrightarrow> sessions_ok (put_session k s st)"
  by (simp add: sessions_ok_def)

lemma sessions_ok_upd:
  assumes "sessions_ok st" and "\<And>s. history_ok s \<Longrightarrow> history_ok (f s)"
  shows "sessions_ok (upd_session k f st)"
proof (cases "activeSessions st k")
  case None
  then show ?thesis using assms(1) by (simp add: upd_session_absent)
next
  case (Some s)
  then show ?thesis using assms sessions_okD[OF assms(1) Some]
    by (simp add: upd_session_live sessions_ok_put)
qed

lemma sessions_ok_pointwise:
  assumes "sessions_ok st"
    and "\<And>j. j \<noteq> k \<Longrightarrow> activeSessions st' j = activeSessions st j"
    and "\<And>s'. activeSessions st' k = Some s' \<Longrightarrow> history_ok s'"
  shows "sessions_ok st'"
proof (rule sessions_okI)
  fix j s assume a: "activeSessions st' j = Some s"
  show "history_ok s"
  proof (cases "j = k")
    case True
    then show ?thesis using a assms(3) by simp
  next
    case False
    then show ?thesis using a assms(1,2) by (simp add: sessions_ok_def)
  qed
qed

lemma sessions_ok_speakResponse:
  assumes "sessions_ok st"
  shows "sessions_ok (speakResponse env tts cid txt st)"
proof (rule sessions_ok_pointwise[OF assms, of cid])
  fix j assume "j \<noteq> cid"
  then show "activeSessions (speakResponse env tts cid txt st) j = activeSessions st j"
    by (rule speakResponse_other)
next
  fix s' assume a: "activeSessions (speakResponse env tts cid txt st) cid = Some s'"
  then obtain s where s: "activeSessions st cid = Some s" and e: "s' = s\<lparr>isSpeaking := False\<rparr>"
    by (auto simp: speakResponse_at)
  have "history_ok s" using assms s by (rule sessions_okD)
  then show "history_ok s'" by (simp add: e history_ok_def)
qed

lemma sessions_ok_processUserInput:
  assumes "sessions_ok st"
  shows "sessions_ok (processUserInput env llm tts cid userText st)"
proof (cases "activeSessions st cid")
  case None
  then show ?thesis using assms by (simp add: processUserInput_absent)
next
  case (Some s)
  have ok: "history_ok s" using assms Some by (rule sessions_okD)
  define s1 where "s1 = s\<lparr>conversationHistory :=
                     conversationHistory s @ [\<lparr>role = User, content = userText\<rparr>]\<rparr>"
  define g where "g = generateResponse env llm s1 st"
  have ok1: "history_ok s1"
    using ok by (rule history_ok_snoc[where r = User and c = userText]) (simp_all add: s1_def)
  have g2: "fst (snd g) = s1\<lparr>creditsUsed := creditsUsed (fst (snd g))\<rparr>"
    unfolding g_def by (rule generateResponse_session)
  have ok2: "history_ok (fst (snd g))"
    using ok1 by (subst g2) (simp add: history_ok_def)
  have ok3: "history_ok (fst (snd g)\<lparr>conversationHistory :=
                          conversationHistory (fst (snd g))
                          @ [\<lparr>role = Assistant, content = fst g\<rparr>],
                        transcriptSummary := transcriptSummary (fst (snd g)) @ [js ''AI: '' @ fst g],
                        isSpeaking := False\<rparr>)"
    using ok2 by (rule history_ok_snoc[where r = Assistant and c = "fst g"]) simp_all
  have e: "activeSessions (processUserInput env llm tts cid userText st) cid
               = (if fst g = [] then Some (fst (snd g))
                  else Some (fst (snd g)\<lparr>conversationHistory :=
                          conversationHistory (fst (snd g))
                          @ [\<lparr>role = Assistant, content = fst g\<rparr>],
                        transcriptSummary := transcriptSummary (fst (snd g)) @ [js ''AI: '' @ fst g],
                        isSpeaking := False\<rparr>))"
    unfolding g_def s1_def using processUserInput_at[OF Some, of env llm tts userText]
    by (simp only: Let_def)
  show ?thesis
  proof (rule sessions_ok_pointwise[OF assms, of cid])
    fix j assume "j \<noteq> cid"
    then show "activeSessions (processUserInput env llm tts cid userText st) j
                 = activeSessions st j"
      by (rule processUserInput_other)
  next
    fix s' assume "activeSessions (processUserInput env llm tts cid userText st) cid = Some s'"
    then show "history_ok s'" using ok2 ok3 unfolding e by (auto split: if_splits)
  qed
qed

lemma sessions_ok_sendGreeting:
  assumes "sessions_ok st"
  shows "sessions_ok (sendGreeting env tts cid st)"
proof (cases "activeSessions st cid")
  case None
  then show ?thesis using assms by (simp add: sendGreeting_def)
next
  case (Some s)
  have ok: "history_ok s" using assms Some by (rule sessions_okD)
  have "history_ok (s\<lparr>conversationHistory :=
                        conversationHistory s @ [\<lparr>role = Assistant, content = greeting (agent s)\<rparr>],
                      transcriptSummary := transcriptSummary s @ [js ''AI: '' @ greeting (agent s)]\<rparr>)"
    using ok by (rule history_ok_snoc[where r = Assistant and c = "greeting (agent s)"]) simp_all
  then show ?thesis using Some assms
    by (simp add: sendGreeting_def Let_def sessions_ok_speakResponse sessions_ok_put)
qed

lemma sessions_ok_endCall:
  assumes "sessions_ok st"
  shows "sessions_ok (snd (endCall env now cid reason st))"
proof (cases "activeSessions st cid")
  case None
  then show ?thesis using assms by (simp add: endCall_absent)
next
  case (Some s)
  show ?thesis using assms
    by (simp add: sessions_ok_def endCall_live(2)[OF Some])
qed

lemma sessions_ok_updateCallCredits:
  assumes "sessions_ok st"
  shows "sessions_ok (updateCallCredits env now endNow k st)"
proof (cases "activeSessions st k")
  case None
  then show ?thesis using assms by (simp add: updateCallCredits_def)
next
  case (Some s)
  have ok: "history_ok s" using assms Some by (rule sessions_okD)
  have "history_ok (s\<lparr>creditsUsed := c\<rparr>)" for c using ok by (simp add: history_ok_def)
  then show ?thesis using Some assms
    by (simp add: updateCallCredits_def Let_def sessions_ok_endCall sessions_ok_put)
qed

lemma sessions_ok_handleBargeIn:
  assumes "sessions_ok st"
  shows "sessions_ok (handleBargeIn cid st)"
proof (rule sessions_ok_pointwise[OF assms, of cid])
  fix j assume "j \<noteq> cid"
  then show "activeSessions (handleBargeIn cid st) j = activeSessions st j"
    by (rule handleBargeIn_other)
next
  fix s' assume a: "activeSessions (handleBargeIn cid st) cid = Some s'"
  then obtain s where s: "activeSessions st cid = Some s" and e: "s' = s\<lparr>isSpeaking := False\<rparr>"
    by (auto simp: handleBargeIn_at)
  have "history_ok s" using assms s by (rule sessions_okD)
  then show "history_ok s'" by (simp add: e history_ok_def)
qed

lemma sessions_ok_handleAudioInput:
  assumes "sessions_ok st"
  shows "sessions_ok (handleAudioInput env now endNow cid audioData st)"
proof -
  have u: "sessions_ok (upd_session cid
                              (\<lambda>s. case silenceStart s of
                                      None \<Rightarrow> s
                                    | Some t \<Rightarrow>
                                        if t \<noteq> 0 \<and> now - t > SILENCE_THRESHOLD_MS \<and> \<not> isSpeaking s
                                        then s\<lparr>silenceStart := None\<rparr> else s) st')"
    if "sessions_ok st'" for st'
    using that by (rule sessions_ok_upd) (simp add: history_ok_def split: option.splits)
  show ?thesis using assms
    by (simp add: handleAudioInput_def Let_def sessions_ok_updateCallCredits u
          sessions_ok_handleBargeIn split: option.splits)
qed

lemma sessions_ok_upd_closed_over:
  assumes "sessions_ok st" and "\<And>s. history_ok s \<Longrightarrow> history_ok (f s)"
  shows "sessions_ok (upd_closed_over cid sref f st)"
  using assms by (simp add: upd_closed_over_def sessions_ok_upd)

lemma sessions_ok_on_stt_event:
  assumes "sessions_ok st"
  shows "sessions_ok (on_stt_event env llm tts now cid sref ev st)"
proof (cases ev)
  case (Transcript r)
  have "sessions_ok (upd_closed_over cid sref
          (\<lambda>s. s\<lparr>lastUserSpeech := Some now, silenceStart := None, isListening := True\<rparr>) st)"
    using assms by (rule sessions_ok_upd_closed_over) (simp add: history_ok_def)
  then show ?thesis using Transcript assms by (simp add: on_stt_event_def)
next
  case (FinalTranscript r)
  have "sessions_ok (upd_closed_over cid sref (\<lambda>s. s\<lparr>transcriptSummary :=
                        transcriptSummary s @ [js ''User: '' @ result_text r]\<rparr>) st)"
    using assms by (rule sessions_ok_upd_closed_over) (simp add: history_ok_def)
  then have "sessions_ok (processUserInput env llm tts cid (result_text r)
                 (emit (UserTranscript cid (result_text r))
                    (upd_closed_over cid sref (\<lambda>s. s\<lparr>transcriptSummary :=
                        transcriptSummary s @ [js ''User: '' @ result_text r]\<rparr>) st)))"
    by (intro sessions_ok_processUserInput) simp
  then show ?thesis using FinalTranscript assms
    by (simp only: on_stt_event_def stt_event.case split: if_splits) simp
next
  case SpeechEnd
  have "sessions_ok (upd_closed_over cid sref
          (\<lambda>s. s\<lparr>isListening := False, silenceStart := Some now\<rparr>) st)"
    using assms by (rule sessions_ok_upd_closed_over) (simp add: history_ok_def)
  then show ?thesis using SpeechEnd by (simp add: on_stt_event_def)
next
  case SttClientError
  then show ?thesis using assms by (simp add: on_stt_event_def)
qed

lemma sessions_ok_fold_events:
  "sessions_ok st \<Longrightarrow> sessions_ok (fold (on_stt_event env llm tts now cid sref) evs st)"
  by (induction evs arbitrary: st) (simp_all add: sessions_ok_on_stt_event)

lemma sessions_ok_on_stt_message:
  "sessions_ok st \<Longrightarrow> sessions_ok (on_stt_message env llm tts now cid sref message st)"
  by (simp add: on_stt_message_def sessions_ok_fold_events)

lemma sessions_ok_initializeSession:
  assumes "sessions_ok st"
  shows "sessions_ok (snd (initializeSession env swCalls opened now cid tid aid ag camp st))"
  using assms
  by (simp add: sessions_ok_def initializeSession_sessions history_ok_def)

lemma sessions_ok_step: "sessions_ok st \<Longrightarrow> sessions_ok (step env swCalls x st)"
  by (cases x)
     (simp_all add: sessions_ok_initializeSession sessions_ok_handleAudioInput
        sessions_ok_on_stt_message sessions_ok_sendGreeting sessions_ok_endCall)

lemma sessions_ok_run: "sessions_ok st \<Longrightarrow> sessions_ok (run env swCalls ops st)"
  unfolding run_def by (induction ops arbitrary: st) (simp_all add: sessions_ok_step)

lemma sessions_ok_new: "sessions_ok new_orchestrator"
  by (simp add: sessions_ok_def new_orchestrator_def)

lemma history_ok_window:
  assumes "history_ok s" and "length (conversationHistory s) > 10"
  shows "\<forall>t \<in> set (slice_from (- 10) (conversationHistory s)). role t \<noteq> System"
proof -
  from assms(1) obtain t rest where h: "conversationHistory s = t # rest"
    and r: "list_all (\<lambda>t. role t \<noteq> System) rest"
    by (cases "conversationHistory s") (auto simp: history_ok_def)
  have "slice_from (- 10) (t # rest) = drop (length rest - 10) rest"
    using assms(2) h by (simp add: slice_from_def Let_def nat_diff_distrib' drop_Cons' )
  moreover have "set (drop (length rest - 10) rest) \<subseteq> set rest" by (rule set_drop_subset)
  ultimately show ?thesis using r h by (auto simp: list_all_iff)
qed

subsection \<open>Evaluating the long call\<close>

lemma trim_hi: "trim (js ''hi'') = js ''hi''"
  by (simp add: trim_def is_ws_def js_def)

lemma long_call_roles:
  "map_option (\<lambda>s. map role (conversationHistory s))
     (activeSessions (run full_env Map.empty long_call new_orchestrator) ''call-1'')
   = Some [System, User, Assistant, User, Assistant, User, Assistant, User, Assistant,
           User, Assistant, User, Assistant]"
  by (simp add: long_call_def spoken_turn_def run_def numeral_eq_Suc initializeSession_def new_orchestrator_def
        on_stt_message_def handleMessage_def on_stt_event_def processUserInput_def
        generateResponse_def getOpenAI_def speakResponse_def elevenlabs_isConfigured_def
        isConfigured_def connect_def createDeepgramSTT_def handleBargeIn_def
        upd_session_def put_session_def emit_def full_env_def truthy_def trim_hi
        example_agent_def Let_def slice_from_def ceil_div_def upd_closed_over_def)

lemma long_call_requests:
  "map length (requests (trace (run full_env Map.empty long_call new_orchestrator)))
     = [2, 4, 6, 8, 10, 10]"
  by (simp add: long_call_def spoken_turn_def run_def numeral_eq_Suc initializeSession_def new_orchestrator_def
        on_stt_message_def handleMessage_def on_stt_event_def processUserInput_def
        generateResponse_def getOpenAI_def speakResponse_def elevenlabs_isConfigured_def
        isConfigured_def connect_def createDeepgramSTT_def handleBargeIn_def
        upd_session_def put_session_def emit_def full_env_def truthy_def trim_hi
        example_agent_def Let_def slice_from_def ceil_div_def upd_closed_over_def)

subsection \<open>Credits\<close>

lemma updateCallCredits_expired:
  assumes "activeSessions st k = Some s" and "callId s = k"
    and "now - startTime s \<ge> 600000"
  shows "activeSessions (updateCallCredits env now endNow k st) k = None"
    and "last (trace (updateCallCredits env now endNow k st))
           = CallEnded k (tenantId s) ((endNow - startTime s) div 1000)
               (max (creditsUsed s) (ceil_div (now - startTime s) 60000 * CREDITS_PER_MINUTE))
               ''max_duration''"
  using assms
  by (simp_all add: updateCallCredits_def Let_def MAX_CALL_DURATION_SEC_def endCall_def
        max_def split: option.splits)

lemma ceil_div_nonneg: "0 \<le> a \<Longrightarrow> 0 < b \<Longrightarrow> 0 \<le> ceil_div a b"
  using div_nonpos_pos_le0[of "- a" b] by (simp add: ceil_div_def)

lemma turn_credits_nonneg: "0 \<le> turn_credits log"
  by (induction log rule: turn_credits.induct) (simp_all add: ceil_div_nonneg)

lemma time_level_mono: "c \<le> d \<Longrightarrow> time_level start c log \<le> time_level start d log"
  by (induction start c log arbitrary: d rule: time_level.induct) simp_all

lemma time_level_ge: "c \<le> time_level start c log"
proof (induction start c log rule: time_level.induct)
  case (2 start c now evs)
  have "c \<le> max c (ceil_div (now - start) 60000 * CREDITS_PER_MINUTE)" by simp
  also have "\<dots> \<le> time_level start (max c (ceil_div (now - start) 60000 * CREDITS_PER_MINUTE)) evs"
    by (rule 2)
  finally show ?case by simp
qed simp_all

lemma time_level_shift:
  "0 \<le> t \<Longrightarrow> time_level start (c + t) log \<le> time_level start c log + t"
proof (induction start c log rule: time_level.induct)
  case (2 start c now evs)
  let ?L = "ceil_div (now - start) 60000 * CREDITS_PER_MINUTE"
  have "max (c + t) ?L \<le> max c ?L + t" using 2(2) by simp
  then have "time_level start (max (c + t) ?L) evs \<le> time_level start (max c ?L + t) evs"
    by (rule time_level_mono)
  also have "\<dots> \<le> time_level start (max c ?L) evs + t" using 2 by simp
  finally show ?case by simp
qed simp_all

lemma turn_credits_frames: "list_all is_frame log \<Longrightarrow> turn_credits log = 0"
  by (induction log rule: turn_credits.induct) simp_all

lemma meter_step_absent: "activeSessions st k = None \<Longrightarrow> meter_step env k ev st = st"
  by (cases ev) (simp_all add: meter_step_def updateCallCredits_def)

lemma meter_fold_absent:
  "activeSessions st k = None \<Longrightarrow> fold (meter_step env k) log st = st"
  by (induction log) (simp_all add: meter_step_absent)

lemma updateCallCredits_live:
  assumes "activeSessions st k = Some s"
    and "activeSessions (updateCallCredits env now endNow k st) k = Some s'"
  shows "s' = s\<lparr>creditsUsed :=
                  max (creditsUsed s) (ceil_div (now - startTime s) 60000 * CREDITS_PER_MINUTE)\<rparr>"
proof -
  let ?new = "ceil_div (now - startTime s) 60000 * CREDITS_PER_MINUTE"
  define st1 where "st1 = (if ?new > creditsUsed s then
                        emit (CreditsDeducted (callId s) (tenantId s) (?new - creditsUsed s) ?new)
                          (put_session k (s\<lparr>creditsUsed := ?new\<rparr>) st)
                      else st)"
  have a1: "activeSessions st1 k = Some (s\<lparr>creditsUsed := max (creditsUsed s) ?new\<rparr>)"
    using assms(1) by (simp add: st1_def max_def)
  have u: "updateCallCredits env now endNow k st
             = (if now - startTime s \<ge> MAX_CALL_DURATION_SEC * 1000
                then snd (endCall env endNow (callId s) ''max_duration'' st1) else st1)"
    unfolding st1_def updateCallCredits_def Let_def using assms(1) by simp
  show ?thesis
  proof (cases "now - startTime s \<ge> MAX_CALL_DURATION_SEC * 1000")
    case False
    then show ?thesis using assms(2) a1 by (simp add: u)
  next
    case True
    then have e: "activeSessions (snd (endCall env endNow (callId s) ''max_duration'' st1)) k = Some s'"
      using assms(2) by (simp add: u)
    show ?thesis
    proof (cases "activeSessions st1 (callId s)")
      case None
      then show ?thesis using e a1 by (simp add: endCall_absent)
    next
      case (Some x)
      have "activeSessions (snd (endCall env endNow (callId s) ''max_duration'' st1))
              = (activeSessions st1)(callId s := None)"
        by (rule endCall_live(2)[OF Some])
      then show ?thesis using e a1 by (auto split: if_splits)
    qed
  qed
qed

lemma updateCallCredits_openaiClient [simp]:
  "openaiClient (updateCallCredits env now endNow k st) = openaiClient st"
  by (simp add: updateCallCredits_def endCall_def Let_def split: option.splits)

lemma generateResponse_credits:
  "fst (snd (generateResponse env (\<lambda>_. c) s st))
     = s\<lparr>creditsUsed := creditsUsed s
           + (if getOpenAI env st = None then 0 else turn_credits [TurnGeneration c])\<rparr>"
proof (cases "getOpenAI env st")
  case None
  then show ?thesis by (simp add: generateResponse_def Let_def)
next
  case (Some st1)
  show ?thesis
  proof (cases c)
    case ProviderError
    then show ?thesis using Some by (simp add: generateResponse_def Let_def)
  next
    case (Completion x u)
    then show ?thesis using Some
      by (cases u) (simp_all add: generateResponse_def Let_def ceil_div_def)
  qed
qed

lemma meter_step_live:
  assumes "activeSessions st k = Some s"
    and "activeSessions (meter_step env k ev st) k = Some s'"
  shows "s' = s\<lparr>creditsUsed :=
            (case ev of
               InboundFrame now \<Rightarrow>
                 max (creditsUsed s) (ceil_div (now - startTime s) 60000 * CREDITS_PER_MINUTE)
             | TurnGeneration c \<Rightarrow>
                 creditsUsed s + (if getOpenAI env st = None then 0 else turn_credits [ev]))\<rparr>"
proof (cases ev)
  case (InboundFrame now)
  then show ?thesis using assms updateCallCredits_live[OF assms(1), of env now now s']
    by (simp add: meter_step_def)
next
  case (TurnGeneration c)
  have "activeSessions (meter_step env k ev st) k
          = Some (fst (snd (generateResponse env (\<lambda>_. c) s st)))"
    using assms(1) TurnGeneration by (simp add: meter_step_def split: prod.splits)
  then have "s' = fst (snd (generateResponse env (\<lambda>_. c) s st))" using assms(2) by simp
  then show ?thesis using TurnGeneration by (simp add: generateResponse_credits)
qed

lemma generateResponse_openaiClient:
  "openaiClient (snd (snd (generateResponse env llm s st)))
     = (openaiClient st \<or> truthy (OPENAI_API_KEY env))"
  by (auto simp: generateResponse_def Let_def getOpenAI_def
        split: option.splits completion.splits if_splits)

lemma meter_step_client:
  assumes "getOpenAI env st \<noteq> None"
  shows "getOpenAI env (meter_step env k ev st) \<noteq> None"
proof (cases ev)
  case (InboundFrame now)
  then show ?thesis using assms by (simp add: meter_step_def getOpenAI_None)
next
  case (TurnGeneration c)
  show ?thesis
  proof (cases "activeSessions st k")
    case None
    then show ?thesis using assms by (simp add: meter_step_absent)
  next
    case (Some s)
    then show ?thesis using assms TurnGeneration
      by (simp add: meter_step_def getOpenAI_None case_prod_beta generateResponse_openaiClient)
  qed
qed

lemma turn_credits_Cons: "turn_credits (ev # log) = turn_credits [ev] + turn_credits log"
  by (cases "ev # log" rule: turn_credits.cases) auto

lemma meter_log:
  assumes "activeSessions st k = Some s"
    and "activeSessions (fold (meter_step env k) log st) k = Some s'"
  shows "time_level (startTime s) (creditsUsed s) log \<le> creditsUsed s'
         \<and> creditsUsed s' \<le> time_level (startTime s) (creditsUsed s) log + turn_credits log
         \<and> (getOpenAI env st \<noteq> None \<and> list_all (\<lambda>ev. \<not> is_frame ev) log
              \<longrightarrow> creditsUsed s' = creditsUsed s + turn_credits log)"
  using assms
proof (induction log arbitrary: st s)
  case Nil
  then show ?case by simp
next
  case (Cons ev log)
  define st1 where "st1 = meter_step env k ev st"
  have f: "activeSessions (fold (meter_step env k) log st1) k = Some s'"
    using Cons.prems(2) by (simp add: st1_def)
  obtain s1 where s1: "activeSessions st1 k = Some s1"
  proof (cases "activeSessions st1 k")
    case None
    then have "fold (meter_step env k) log st1 = st1" by (rule meter_fold_absent)
    then show ?thesis using f None by simp
  next
    case (Some x)
    then show ?thesis using that by blast
  qed
  note live = meter_step_live[OF Cons.prems(1) s1[unfolded st1_def]]
  have start: "startTime s1 = startTime s" by (subst live) simp
  note IH = Cons.IH[OF s1 f, unfolded start]
  show ?case
  proof (cases ev)
    case (InboundFrame now)
    have c1: "creditsUsed s1
                = max (creditsUsed s) (ceil_div (now - startTime s) 60000 * CREDITS_PER_MINUTE)"
      by (subst live) (simp add: InboundFrame)
    show ?thesis using IH by (simp add: InboundFrame c1)
  next
    case (TurnGeneration c)
    define t where "t = (if getOpenAI env st = None then 0 else turn_credits [ev])"
    have c1: "creditsUsed s1 = creditsUsed s + t"
      by (subst live) (simp add: TurnGeneration t_def)
    have t0: "0 \<le> t" by (simp add: t_def turn_credits_nonneg)
    have t1: "t \<le> turn_credits [ev]"
      by (cases "getOpenAI env st") (simp_all add: t_def turn_credits_nonneg)
    have tc: "turn_credits (ev # log) = turn_credits [ev] + turn_credits log"
      by (rule turn_credits_Cons)
    have tl: "time_level (startTime s) (creditsUsed s) (ev # log)
                = time_level (startTime s) (creditsUsed s) log"
      by (simp add: TurnGeneration)
    have lo: "time_level (startTime s) (creditsUsed s) log
                \<le> time_level (startTime s) (creditsUsed s + t) log"
      using t0 by (intro time_level_mono) simp
    have hi: "time_level (startTime s) (creditsUsed s + t) log
                \<le> time_level (startTime s) (creditsUsed s) log + t"
      using t0 by (rule time_level_shift)
    have 1: "time_level (startTime s) (creditsUsed s) (ev # log) \<le> creditsUsed s'"
      using IH lo unfolding tl c1 by linarith
    have 2: "creditsUsed s'
               \<le> time_level (startTime s) (creditsUsed s) (ev # log) + turn_credits (ev # log)"
      using IH hi t1 unfolding tl tc c1 by linarith
    have 3: "creditsUsed s' = creditsUsed s + turn_credits (ev # log)"
      if a: "getOpenAI env st \<noteq> None" and b: "list_all (\<lambda>ev. \<not> is_frame ev) (ev # log)"
    proof -
      have "getOpenAI env st1 \<noteq> None" unfolding st1_def using a by (rule meter_step_client)
      moreover have "list_all (\<lambda>ev. \<not> is_frame ev) log" using b by simp
      ultimately have "creditsUsed s' = creditsUsed s1 + turn_credits log" using IH by blast
      moreover have "t = turn_credits [ev]" unfolding t_def using a by auto
      ultimately show ?thesis unfolding tc c1 by simp
    qed
    show ?thesis using 1 2 3 by blast
  qed
qed

subsection \<open>Requests made in a run\<close>

lemma endCall_requests [simp]:
  "requests (trace (snd (endCall env now cid reason st))) = requests (trace st)"
  by (simp add: endCall_def Let_def split: option.splits)

lemma updateCallCredits_requests [simp]:
  "requests (trace (updateCallCredits env now endNow k st)) = requests (trace st)"
  by (simp add: updateCallCredits_def Let_def split: option.splits)

lemma handleAudioInput_requests [simp]:
  "requests (trace (handleAudioInput env now endNow cid audioData st)) = requests (trace st)"
  by (simp add: handleAudioInput_def Let_def handleBargeIn_requests split: option.splits)

lemma sendGreeting_requests [simp]:
  "requests (trace (sendGreeting env tts cid st)) = requests (trace st)"
  by (simp add: sendGreeting_def Let_def speakResponse_requests split: option.splits)

lemma length_window: "length (slice_from (- 10) xs) \<le> 10"
  using length_slice_from_neg[of 10 xs] by simp

lemma windows_processUserInput:
  assumes "list_all (\<lambda>ms. length ms \<le> 10) (requests (trace st))"
  shows "list_all (\<lambda>ms. length ms \<le> 10)
           (requests (trace (processUserInput env llm tts cid userText st)))"
  using assms
  by (simp add: processUserInput_requests length_window split: option.splits)

lemma windows_on_stt_event:
  assumes "list_all (\<lambda>ms. length ms \<le> 10) (requests (trace st))"
  shows "list_all (\<lambda>ms. length ms \<le> 10)
           (requests (trace (on_stt_event env llm tts now cid sref ev st)))"
proof (cases ev)
  case (FinalTranscript r)
  have "list_all (\<lambda>ms. length ms \<le> 10)
          (requests (trace (processUserInput env llm tts cid (result_text r)
             (emit (UserTranscript cid (result_text r))
                (upd_closed_over cid sref (\<lambda>s. s\<lparr>transcriptSummary :=
                    transcriptSummary s @ [js ''User: '' @ result_text r]\<rparr>) st)))))"
    using assms by (intro windows_processUserInput) simp
  then show ?thesis using assms FinalTranscript
    by (simp only: on_stt_event_def stt_event.case split: if_splits) simp
qed (simp_all add: assms on_stt_event_requests_other)

lemma windows_fold_events:
  "list_all (\<lambda>ms. length ms \<le> 10) (requests (trace st))
     \<Longrightarrow> list_all (\<lambda>ms. length ms \<le> 10)
           (requests (trace (fold (on_stt_event env llm tts now cid sref) evs st)))"
  by (induction evs arbitrary: st) (simp_all add: windows_on_stt_event)

lemma windows_step:
  "list_all (\<lambda>ms. length ms \<le> 10) (requests (trace st))
     \<Longrightarrow> list_all (\<lambda>ms. length ms \<le> 10) (requests (trace (step env swCalls x st)))"
  by (cases x) (simp_all add: on_stt_message_def windows_fold_events)

lemma windows_run:
  "list_all (\<lambda>ms. length ms \<le> 10) (requests (trace st))
     \<Longrightarrow> list_all (\<lambda>ms. length ms \<le> 10) (requests (trace (run env swCalls ops st)))"
  unfolding run_def by (induction ops arbitrary: st) (simp_all add: windows_step)

subsection \<open>History window\<close>

text \<open>
  Claim C7 (history window bound). In any run of operations from the empty orchestrator,
  every request sent to the provider carries at most ten messages, however long the
  conversation. The request that \<^verbatim>\<open>generateResponse\<close> sends (none when the client
  cannot be created) consists of the last ten entries of the history, and the history
  stored in the session is the same afterwards: older turns stay in the session.
\<close>

theorem history_window_bound:
  "(\<forall>ms \<in> set (requests (trace (run env swCalls ops new_orchestrator))). length ms \<le> 10)
   \<and> requests (trace (snd (snd (generateResponse env' llm session st))))
       = requests (trace st)
         @ (if getOpenAI env' st = None then []
            else [slice_from (- 10) (conversationHistory session)])
   \<and> length (slice_from (- 10) (conversationHistory session)) \<le> 10
   \<and> conversationHistory (fst (snd (generateResponse env' llm session st)))
       = conversationHistory session"
proof -
  have "list_all (\<lambda>ms. length ms \<le> 10) (requests (trace new_orchestrator))"
    by (simp add: new_orchestrator_def)
  then have "list_all (\<lambda>ms. length ms \<le> 10)
               (requests (trace (run env swCalls ops new_orchestrator)))"
    by (rule windows_run)
  then have 1: "\<forall>ms \<in> set (requests (trace (run env swCalls ops new_orchestrator))).
                  length ms \<le> 10"
    by (simp add: list_all_iff)
  have 4: "conversationHistory (fst (snd (generateResponse env' llm session st)))
             = conversationHistory session"
    by (subst generateResponse_session) simp
  show ?thesis using 1 4 by (simp add: generateResponse_requests length_window)
qed

theorem history_window_bound_witness:
  "map length (requests (trace (run full_env Map.empty long_call new_orchestrator)))
     = [2, 4, 6, 8, 10, 10]
   \<and> list_all (\<lambda>ms. length ms \<le> 10)
         (requests (trace (run full_env Map.empty long_call new_orchestrator)))"
  using history_window_bound [of full_env Map.empty long_call] long_call_requests
  by (simp add: list_all_iff)

subsection \<open>Barge-in\<close>

text \<open>
  Claim C1 (barge-in latency bound). A session is live and synthesis is configured;
  \<^verbatim>\<open>speakResponse\<close> plays a stream of which step \<open>k\<close> (counted from 1) is reached with
  \<^verbatim>\<open>handleBargeIn\<close> having run while the loop waited for it. Then the frames forwarded
  to the outbound sink are those of the steps before the first barge-in or stream failure:
  at most \<open>k\<close> of them (indeed fewer than \<open>k\<close>), and a prefix of the chunks of the
  stream, so that nothing is forwarded once the cleared flag has been seen. The flag is
  written by \<^verbatim>\<open>handleBargeIn\<close> only while the loop runs.
\<close>

theorem barge_in_latency_bound:
  assumes "activeSessions st cid = Some s" and "elevenlabs_isConfigured env"
    and "0 < k" and "k \<le> length tts" and "fst (tts ! (k - 1))"
  shows "forwarded cid (trace (speakResponse env tts cid txt st))
           = forwarded cid (trace st) @ played tts
         \<and> length (played tts) \<le> k
         \<and> played tts = take (length (played tts)) (chunks_of tts)"
proof -
  let ?st1 = "emit (TtsStreamRequest (if voiceId (agent s) \<noteq> [] then voiceId (agent s)
                      else VOICE_PRESETS_RACHEL) txt)
               (emit (AiSpeaking cid txt) (put_session cid (s\<lparr>isSpeaking := True\<rparr>) st))"
  have live: "activeSessions ?st1 cid = Some (s\<lparr>isSpeaking := True\<rparr>)" by simp
  have "forwarded cid (trace (playback cid tts ?st1)) = forwarded cid (trace ?st1) @ played tts"
    using live by (rule playback_forwarded) simp
  then have 1: "forwarded cid (trace (speakResponse env tts cid txt st))
           = forwarded cid (trace st) @ played tts"
    using assms(1,2) by (simp add: speakResponse_def Let_def)
  have "length (played tts) \<le> k - 1"
    using assms(3,4,5) by (intro length_played) simp_all
  then have 2: "length (played tts) \<le> k" by simp
  show ?thesis using 1 2 played_take by blast
qed

theorem barge_in_latency_bound_witness:
  "activeSessions example_state ''call-1'' = Some example_session
   \<and> elevenlabs_isConfigured full_env
   \<and> fst ([(False, Chunk [0x80]), (True, Chunk [0x81]), (False, Chunk [0x82])] ! (2 - 1))
   \<and> forwarded ''call-1'' (trace (speakResponse full_env
         [(False, Chunk [0x80]), (True, Chunk [0x81]), (False, Chunk [0x82])]
         ''call-1'' (js ''Hi'') example_state)) = [[0x80]]"
proof -
  have h1: "activeSessions example_state ''call-1'' = Some example_session"
    by (simp add: example_state_def)
  have h2: "elevenlabs_isConfigured full_env"
    by (simp add: elevenlabs_isConfigured_def full_env_def truthy_def)
  have h3: "0 < (2::nat)" by simp
  have h4: "2 \<le> length [(False, Chunk [0x80]), (True, Chunk [0x81]), (False, Chunk [0x82::8 word])]"
    by simp
  have h5: "fst ([(False, Chunk [0x80]), (True, Chunk [0x81]), (False, Chunk [0x82::8 word])] ! (2 - 1))"
    by simp
  show ?thesis
    using h1 h2 h5 barge_in_latency_bound [OF h1 h2 h3 h4 h5, of "js ''Hi''"]
    by (simp add: example_state_def)
qed

subsection \<open>Ending a call\<close>

text \<open>
  Claim C3 (idempotent termination), as amended. For a live session whose transcription
  client is registered, the first \<^verbatim>\<open>endCall\<close> returns the stats of the session, every
  later \<^verbatim>\<open>endCall\<close> for the same call identifier returns the empty stats (zero
  duration, zero credits, empty summary), none raises, and the transcription client is
  told to disconnect exactly once however many calls follow.
\<close>

theorem endCall_repeated:
  assumes "activeSessions st cid = Some s" and "sttClients st cid = Some stt"
  shows "fst (endCalls env cid ((now, reason) # calls) st) =
           \<lparr>stats_durationSec = (now - startTime s) div 1000, stats_creditsUsed = creditsUsed s,
            stats_transcriptSummary = join nl (transcriptSummary s)\<rparr>
           # replicate (length calls)
               \<lparr>stats_durationSec = 0, stats_creditsUsed = 0, stats_transcriptSummary = []\<rparr>
         \<and> released cid (snd (endCalls env cid ((now, reason) # calls) st)) = released cid st + 1
         \<and> activeSessions (snd (endCalls env cid ((now, reason) # calls) st)) cid = None"
proof -
  obtain stats st1 where e: "endCall env now cid reason st = (stats, st1)"
    by (cases "endCall env now cid reason st")
  have a: "activeSessions st1 cid = None"
  proof -
    have "activeSessions (snd (endCall env now cid reason st)) cid = None"
      by (simp add: endCall_live(2)[OF assms(1)])
    then show ?thesis by (simp add: e)
  qed
  have r: "released cid st1 = released cid st + 1"
  proof -
    have "released cid (snd (endCall env now cid reason st)) = released cid st + 1"
      by (simp add: endCall_live(4)[OF assms(1)] assms(2))
    then show ?thesis by (simp add: e)
  qed
  have s: "stats = \<lparr>stats_durationSec = (now - startTime s) div 1000,
            stats_creditsUsed = creditsUsed s,
            stats_transcriptSummary = join nl (transcriptSummary s)\<rparr>"
  proof -
    have "fst (endCall env now cid reason st) =
            \<lparr>stats_durationSec = (now - startTime s) div 1000,
             stats_creditsUsed = creditsUsed s,
             stats_transcriptSummary = join nl (transcriptSummary s)\<rparr>"
      by (rule endCall_live(1)[OF assms(1)])
    then show ?thesis by (simp add: e)
  qed
  show ?thesis using e a r s by (simp add: endCalls_absent)
qed

theorem endCall_repeated_witness:
  "fst (endCalls bare_env ''call-1'' [(5000, ''completed''), (6000, ''completed''), (7000, ''again'')]
          example_state)
     = [\<lparr>stats_durationSec = 5, stats_creditsUsed = 0, stats_transcriptSummary = []\<rparr>,
        \<lparr>stats_durationSec = 0, stats_creditsUsed = 0, stats_transcriptSummary = []\<rparr>,
        \<lparr>stats_durationSec = 0, stats_creditsUsed = 0, stats_transcriptSummary = []\<rparr>]
   \<and> released ''call-1'' (snd (endCalls bare_env ''call-1''
          [(5000, ''completed''), (6000, ''completed''), (7000, ''again'')] example_state)) = 1"
proof -
  have h1: "activeSessions example_state ''call-1'' = Some example_session"
    by (simp add: example_state_def)
  have h2: "sttClients example_state ''call-1'' = Some \<lparr>ws = True, isConnected = True\<rparr>"
    by (simp add: example_state_def)
  show ?thesis
    using endCall_repeated [OF h1 h2, of bare_env 5000 "''completed''"
            "[(6000, ''completed''), (7000, ''again'')]"]
    by (simp add: example_state_def example_session_def released_def)
qed

text \<open>
  The claim as stated fails: after one inbound frame has been metered, the first
  \<^verbatim>\<open>endCall\<close> reports five seconds and five credits, the second reports the empty
  stats.
\<close>

theorem endCall_twice_counterexample:
  "fst (endCall bare_env 5000 ''call-1'' ''completed''
          (updateCallCredits bare_env 4000 4000 ''call-1'' example_state))
     = \<lparr>stats_durationSec = 5, stats_creditsUsed = 5, stats_transcriptSummary = []\<rparr>
   \<and> fst (endCall bare_env 5000 ''call-1'' ''completed''
          (snd (endCall bare_env 5000 ''call-1'' ''completed''
             (updateCallCredits bare_env 4000 4000 ''call-1'' example_state))))
     = \<lparr>stats_durationSec = 0, stats_creditsUsed = 0, stats_transcriptSummary = []\<rparr>
   \<and> fst (endCall bare_env 5000 ''call-1'' ''completed''
          (updateCallCredits bare_env 4000 4000 ''call-1'' example_state))
     \<noteq> fst (endCall bare_env 5000 ''call-1'' ''completed''
          (snd (endCall bare_env 5000 ''call-1'' ''completed''
             (updateCallCredits bare_env 4000 4000 ''call-1'' example_state))))"
  by (simp add: endCall_def updateCallCredits_def example_state_def example_session_def Let_def
        ceil_div_def CREDITS_PER_MINUTE_def MAX_CALL_DURATION_SEC_def put_session_def emit_def)

subsection \<open>Creating a session\<close>

text \<open>
  Claim C8 (duplicate-session rejection), as amended. \<^verbatim>\<open>initializeSession\<close> called with
  a call identifier that already has a live session does not fail on that account: it
  fails only if the transcription provider is configured and the connect is rejected. In
  either case the registry entry of that identifier is replaced by a freshly created
  session (history holding the system prompt only, no credits, start time now), and the
  sessions registered under other identifiers are left as they were.
\<close>

theorem initializeSession_replaces:
  assumes "activeSessions st cid = Some old"
    and "initializeSession env swCalls opened now cid tid aid ag camp st = (r, st')"
  shows "(\<exists>s'. activeSessions st' cid = Some s'
            \<and> conversationHistory s' = [\<lparr>role = System, content = buildSystemPrompt ag\<rparr>]
            \<and> creditsUsed s' = 0 \<and> startTime s' = now \<and> transcriptSummary s' = []
            \<and> callId s' = cid \<and> tenantId s' = tid \<and> agent s' = ag
            \<and> (if isConfigured env \<and> \<not> opened then r = Inl DeepgramConnectFailed
                else r = Inr s'))
         \<and> (\<forall>k. k \<noteq> cid \<longrightarrow> activeSessions st' k = activeSessions st k)"
proof -
  have r: "r = fst (initializeSession env swCalls opened now cid tid aid ag camp st)"
    and st': "st' = snd (initializeSession env swCalls opened now cid tid aid ag camp st)"
    using assms(2) by simp_all
  show ?thesis
    unfolding r st' initializeSession_result initializeSession_sessions by simp
qed

theorem initializeSession_replaces_witness:
  "activeSessions (updateCallCredits bare_env 4000 4000 ''call-1'' example_state) ''call-1''
     = Some (example_session\<lparr>creditsUsed := 5\<rparr>)
   \<and> \<not> isl (fst (initializeSession bare_env Map.empty False 9000 ''call-1'' ''tenant-A''
         ''agent-X'' example_agent None
         (updateCallCredits bare_env 4000 4000 ''call-1'' example_state)))
   \<and> map_option creditsUsed (activeSessions (snd (initializeSession bare_env Map.empty False 9000 ''call-1'' ''tenant-A''
         ''agent-X'' example_agent None
         (updateCallCredits bare_env 4000 4000 ''call-1'' example_state))) ''call-1'') = Some 0"
proof -
  have h1: "activeSessions (updateCallCredits bare_env 4000 4000 ''call-1'' example_state) ''call-1''
     = Some (example_session\<lparr>creditsUsed := 5\<rparr>)"
    by (simp add: updateCallCredits_def example_state_def example_session_def Let_def
        ceil_div_def CREDITS_PER_MINUTE_def MAX_CALL_DURATION_SEC_def)
  have h2: "initializeSession bare_env Map.empty False 9000 ''call-1'' ''tenant-A''
         ''agent-X'' example_agent None
         (updateCallCredits bare_env 4000 4000 ''call-1'' example_state)
      = (fst (initializeSession bare_env Map.empty False 9000 ''call-1'' ''tenant-A''
         ''agent-X'' example_agent None
         (updateCallCredits bare_env 4000 4000 ''call-1'' example_state)),
         snd (initializeSession bare_env Map.empty False 9000 ''call-1'' ''tenant-A''
         ''agent-X'' example_agent None
         (updateCallCredits bare_env 4000 4000 ''call-1'' example_state)))"
    by simp
  have c: "\<not> isConfigured bare_env" by (simp add: isConfigured_def bare_env_def truthy_def)
  show ?thesis
    using h1 c initializeSession_replaces [OF h1 h2]
    by auto
qed

text \<open>
  The claim as stated fails: a live session with five credits used is registered under
  \<^verbatim>\<open>call-1\<close>; \<^verbatim>\<open>initializeSession\<close> for \<^verbatim>\<open>call-1\<close> succeeds, and the session
  registered afterwards has no credits used.
\<close>

theorem duplicate_session_counterexample:
  "map_option creditsUsed
     (activeSessions (updateCallCredits bare_env 4000 4000 ''call-1'' example_state) ''call-1'')
     = Some 5
   \<and> \<not> isl (fst (initializeSession bare_env Map.empty False 9000 ''call-1'' ''tenant-A''
         ''agent-X'' example_agent None
         (updateCallCredits bare_env 4000 4000 ''call-1'' example_state)))
   \<and> map_option creditsUsed
       (activeSessions (snd (initializeSession bare_env Map.empty False 9000 ''call-1''
          ''tenant-A'' ''agent-X'' example_agent None
          (updateCallCredits bare_env 4000 4000 ''call-1'' example_state))) ''call-1'')
     = Some 0"
  by (simp add: initializeSession_def updateCallCredits_def example_state_def
        example_session_def Let_def ceil_div_def CREDITS_PER_MINUTE_def
        MAX_CALL_DURATION_SEC_def isConfigured_def bare_env_def truthy_def)

text \<open>
  Claim C9 (turn-generator fail-fast), as amended. When the language-model credentials
  are missing and no client exists, \<^verbatim>\<open>initializeSession\<close> still creates and registers
  the session (it fails only when a configured transcription provider rejects the
  connect); the missing provider is met at each turn instead, where
  \<^verbatim>\<open>generateResponse\<close> returns the fallback utterance of the agent, emits
  \<^verbatim>\<open>aiError\<close>, and sends no request.
\<close>

theorem provider_checked_per_turn:
  assumes "\<not> truthy (OPENAI_API_KEY env)" and "\<not> openaiClient st"
    and "initializeSession env swCalls opened now cid tid aid ag camp st = (r, st')"
  shows "(isl r \<longleftrightarrow> isConfigured env \<and> \<not> opened)
         \<and> activeSessions st' cid \<noteq> None
         \<and> (\<forall>llm s. generateResponse env llm s st'
                = (fallbackMessage (agent s), s, emit (AiError (callId s)) st'))"
proof -
  have r: "r = fst (initializeSession env swCalls opened now cid tid aid ag camp st)"
    and st': "st' = snd (initializeSession env swCalls opened now cid tid aid ag camp st)"
    using assms(3) by simp_all
  have "\<not> openaiClient st'" using assms(2) by (simp add: st')
  then have g: "getOpenAI env st' = None" using assms(1) by (simp add: getOpenAI_def)
  have 1: "isl r \<longleftrightarrow> isConfigured env \<and> \<not> opened"
    unfolding r initializeSession_result by simp
  have 2: "activeSessions st' cid \<noteq> None"
    unfolding st' initializeSession_sessions by simp
  show ?thesis using 1 2 g by (simp add: generateResponse_def Let_def)
qed

theorem provider_checked_per_turn_witness:
  "\<not> truthy (OPENAI_API_KEY bare_env) \<and> \<not> openaiClient new_orchestrator
   \<and> \<not> isl (fst (initializeSession bare_env Map.empty False 0 ''call-1'' ''tenant-A''
         ''agent-X'' example_agent None new_orchestrator))
   \<and> fst (generateResponse bare_env (\<lambda>_. Completion (Some (js ''Hi'')) (Some 42)) example_session
        (snd (initializeSession bare_env Map.empty False 0 ''call-1'' ''tenant-A''
         ''agent-X'' example_agent None new_orchestrator)))
       = js ''Sorry, could you repeat that?''"
proof -
  have h1: "\<not> truthy (OPENAI_API_KEY bare_env)" by (simp add: bare_env_def truthy_def)
  have h2: "\<not> openaiClient new_orchestrator" by (simp add: new_orchestrator_def)
  have h3: "initializeSession bare_env Map.empty False 0 ''call-1'' ''tenant-A''
         ''agent-X'' example_agent None new_orchestrator
      = (fst (initializeSession bare_env Map.empty False 0 ''call-1'' ''tenant-A''
         ''agent-X'' example_agent None new_orchestrator),
         snd (initializeSession bare_env Map.empty False 0 ''call-1'' ''tenant-A''
         ''agent-X'' example_agent None new_orchestrator))"
    by simp
  have c: "\<not> isConfigured bare_env" by (simp add: isConfigured_def bare_env_def truthy_def)
  show ?thesis
    using h1 h2 c provider_checked_per_turn [OF h1 h2 h3]
    by (simp add: example_session_def example_agent_def)
qed

text \<open>
  The claim as stated fails: with no credential set at all, \<^verbatim>\<open>initializeSession\<close>
  succeeds and the session is registered.
\<close>

theorem fail_fast_counterexample:
  "\<not> truthy (OPENAI_API_KEY bare_env)
   \<and> \<not> isl (fst (initializeSession bare_env Map.empty False 0 ''call-1'' ''tenant-A''
         ''agent-X'' example_agent None new_orchestrator))
   \<and> activeSessions (snd (initializeSession bare_env Map.empty False 0 ''call-1'' ''tenant-A''
         ''agent-X'' example_agent None new_orchestrator)) ''call-1'' \<noteq> None"
  by (simp add: initializeSession_def new_orchestrator_def Let_def isConfigured_def
        bare_env_def truthy_def)

subsection \<open>Turn processing\<close>

text \<open>
  Claim C6 (turn-generation fallback), as amended. A user utterance is processed for a
  live session while generation fails (the client cannot be created, or the provider
  rejects the request). Then the user turn is appended, followed by an assistant turn
  whose content is the fallback utterance of the agent whenever that utterance is not
  empty; an empty fallback utterance appends no assistant turn. No error leaves
  \<^verbatim>\<open>processUserInput\<close>, and the registry holds the same sessions afterwards: the
  session is not terminated.
\<close>

theorem generation_failure_fallback:
  assumes "activeSessions st cid = Some s"
    and "getOpenAI env st = None
         \<or> llm (slice_from (- 10)
               (conversationHistory s @ [\<lparr>role = User, content = userText\<rparr>])) = ProviderError"
  shows "(\<exists>s'. activeSessions (processUserInput env llm tts cid userText st) cid = Some s'
            \<and> conversationHistory s'
                = conversationHistory s @ [\<lparr>role = User, content = userText\<rparr>]
                  @ (if fallbackMessage (agent s) = [] then []
                     else [\<lparr>role = Assistant, content = fallbackMessage (agent s)\<rparr>]))
         \<and> (\<forall>k. activeSessions (processUserInput env llm tts cid userText st) k = None
                \<longleftrightarrow> activeSessions st k = None)"
proof -
  let ?s1 = "s\<lparr>conversationHistory :=
                 conversationHistory s @ [\<lparr>role = User, content = userText\<rparr>]\<rparr>"
  have f: "fst (generateResponse env llm ?s1 st) = fallbackMessage (agent s)
       \<and> fst (snd (generateResponse env llm ?s1 st)) = ?s1"
    using generateResponse_fails[of env st llm ?s1] assms(2) by simp
  have at: "\<exists>s'. activeSessions (processUserInput env llm tts cid userText st) cid = Some s'
            \<and> conversationHistory s'
                = conversationHistory s @ [\<lparr>role = User, content = userText\<rparr>]
                  @ (if fallbackMessage (agent s) = [] then []
                     else [\<lparr>role = Assistant, content = fallbackMessage (agent s)\<rparr>])"
    using f by (simp add: processUserInput_at[OF assms(1)] Let_def)
  have "activeSessions (processUserInput env llm tts cid userText st) k = None
          \<longleftrightarrow> activeSessions st k = None" for k
  proof (cases "k = cid")
    case True
    then show ?thesis using at assms(1) by auto
  next
    case False
    then show ?thesis by (simp add: processUserInput_other)
  qed
  then show ?thesis using at by blast
qed

theorem generation_failure_fallback_witness:
  "activeSessions example_state ''call-1'' = Some example_session
   \<and> getOpenAI bare_env example_state = None
   \<and> map_option conversationHistory
        (activeSessions (processUserInput bare_env (\<lambda>_. ProviderError) [] ''call-1''
           (js ''what are your hours'') example_state) ''call-1'')
     = Some [\<lparr>role = System, content = js ''prompt''\<rparr>,
             \<lparr>role = User, content = js ''what are your hours''\<rparr>,
             \<lparr>role = Assistant, content = js ''Sorry, could you repeat that?''\<rparr>]"
proof -
  have h1: "activeSessions example_state ''call-1'' = Some example_session"
    by (simp add: example_state_def)
  have g: "getOpenAI bare_env example_state = None"
    by (simp add: getOpenAI_def bare_env_def example_state_def truthy_def)
  have h2: "getOpenAI bare_env example_state = None
     \<or> (\<lambda>_. ProviderError) (slice_from (- 10) (conversationHistory example_session
           @ [\<lparr>role = User, content = js ''what are your hours''\<rparr>])) = ProviderError"
    using g by simp
  show ?thesis
    using h1 g generation_failure_fallback [OF h1 h2, of "[]"]
    by (auto simp: example_session_def example_agent_def)
qed

text \<open>
  The claim as stated fails for an agent whose fallback utterance is the empty string:
  the history ends with the user turn.
\<close>

theorem empty_fallback_counterexample:
  "map_option conversationHistory
     (activeSessions (processUserInput bare_env (\<lambda>_. ProviderError) [] ''call-1''
        (js ''what are your hours'')
        (put_session ''call-1''
           (example_session\<lparr>agent := example_agent\<lparr>fallbackMessage := []\<rparr>\<rparr>) example_state))
        ''call-1'')
     = Some [\<lparr>role = System, content = js ''prompt''\<rparr>,
             \<lparr>role = User, content = js ''what are your hours''\<rparr>]"
  by (simp add: processUserInput_def generateResponse_def getOpenAI_def bare_env_def
        example_state_def example_session_def example_agent_def truthy_def put_session_def
        emit_def Let_def slice_from_def)

subsection \<open>A transcript message\<close>

lemma on_stt_message_Results:
  "on_stt_message env llm tts now cid sref (Results r) st
     = (if result_text r = [] then st
        else let st1 = on_stt_event env llm tts now cid sref (Transcript r) st;
                 st2 = (if isFinal r
                        then on_stt_event env llm tts now cid sref (FinalTranscript r) st1
                        else st1)
             in if speechFinal r then on_stt_event env llm tts now cid sref SpeechEnd st2
                else st2)"
  by (simp add: on_stt_message_def handleMessage_def Let_def)

lemma final_transcript_blank:
  "trim (result_text r) = []
     \<Longrightarrow> on_stt_event env llm tts now cid sref (FinalTranscript r) st = st"
  by (simp add: on_stt_event_def)

lemma final_transcript_fired:
  assumes "map_option conversationHistory (activeSessions st cid) = Some h"
    and "trim (result_text r) \<noteq> []"
  shows "\<exists>s'. activeSessions (on_stt_event env llm tts now cid sref (FinalTranscript r) st) cid
                = Some s'
            \<and> take (Suc (length h)) (conversationHistory s')
                = h @ [\<lparr>role = User, content = result_text r\<rparr>]"
    and "requests (trace (on_stt_event env llm tts now cid sref (FinalTranscript r) st))
           = requests (trace st)
             @ (if getOpenAI env st = None then []
                else [slice_from (- 10) (h @ [\<lparr>role = User, content = result_text r\<rparr>])])"
proof -
  let ?u = "\<lparr>role = User, content = result_text r\<rparr>"
  define st1 where "st1 = emit (UserTranscript cid (result_text r))
                   (upd_closed_over cid sref (\<lambda>s. s\<lparr>transcriptSummary :=
                        transcriptSummary s @ [js ''User: '' @ result_text r]\<rparr>) st)"
  define st2 where "st2 = processUserInput env llm tts cid (result_text r) st1"
  have st2: "on_stt_event env llm tts now cid sref (FinalTranscript r) st = st2"
    using assms(2) by (simp add: on_stt_event_def st2_def st1_def)
  have "map_option conversationHistory (activeSessions st1 cid) = Some h"
    using assms(1) by (simp add: st1_def upd_closed_over_project)
  then obtain s1 where st1_at: "activeSessions st1 cid = Some s1"
    and s1_hist: "conversationHistory s1 = h" by auto
  have st1_ai: "getOpenAI env st1 = None \<longleftrightarrow> getOpenAI env st = None"
    by (simp add: getOpenAI_None st1_def)
  have st1_req: "requests (trace st1) = requests (trace st)"
    by (simp add: st1_def)
  define g where "g = generateResponse env llm
                  (s1\<lparr>conversationHistory := conversationHistory s1 @ [?u]\<rparr>) st1"
  have gh: "conversationHistory (fst (snd g)) = h @ [?u]"
    unfolding g_def by (subst generateResponse_session) (simp add: s1_hist)
  have e: "activeSessions st2 cid
               = (if fst g = [] then Some (fst (snd g))
                  else Some (fst (snd g)\<lparr>conversationHistory :=
                          conversationHistory (fst (snd g))
                          @ [\<lparr>role = Assistant, content = fst g\<rparr>],
                        transcriptSummary :=
                          transcriptSummary (fst (snd g)) @ [js ''AI: '' @ fst g],
                        isSpeaking := False\<rparr>))"
    unfolding st2_def g_def using processUserInput_at[OF st1_at, of env llm tts "result_text r"]
    by (simp only: Let_def)
  show "\<exists>s'. activeSessions (on_stt_event env llm tts now cid sref (FinalTranscript r) st) cid
                = Some s'
            \<and> take (Suc (length h)) (conversationHistory s') = h @ [?u]"
    unfolding st2 e using gh by simp
  show "requests (trace (on_stt_event env llm tts now cid sref (FinalTranscript r) st))
           = requests (trace st)
             @ (if getOpenAI env st = None then [] else [slice_from (- 10) (h @ [?u])])"
    unfolding st2 st2_def using st1_at st1_ai st1_req s1_hist
    by (simp add: processUserInput_requests)
qed


lemma results_requests:
  assumes "activeSessions st cid = Some s"
  shows "requests (trace (on_stt_message env llm tts now cid sref (Results r) st))
     = requests (trace st)
       @ (if isFinal r \<and> trim (result_text r) \<noteq> [] \<and> getOpenAI env st \<noteq> None
          then [slice_from (- 10)
                  (conversationHistory s @ [\<lparr>role = User, content = result_text r\<rparr>])]
          else [])"
proof (cases "result_text r = []")
  case True
  then show ?thesis by (simp add: on_stt_message_Results trim_Nil)
next
  case False
  define st1 where "st1 = on_stt_event env llm tts now cid sref (Transcript r) st"
  define st2 where "st2 = (if isFinal r
                        then on_stt_event env llm tts now cid sref (FinalTranscript r) st1
                        else st1)"
  have st1_req: "requests (trace st1) = requests (trace st)"
    by (simp add: st1_def on_stt_event_requests_other)
  have st1_hist: "map_option conversationHistory (activeSessions st1 cid)
                    = Some (conversationHistory s)"
    using assms by (simp add: st1_def on_stt_event_history)
  have st1_ai: "getOpenAI env st1 = None \<longleftrightarrow> getOpenAI env st = None"
    using False by (simp add: getOpenAI_None st1_def on_stt_event_def)
  have st2_req: "requests (trace st2)
     = requests (trace st)
       @ (if isFinal r \<and> trim (result_text r) \<noteq> [] \<and> getOpenAI env st \<noteq> None
          then [slice_from (- 10)
                  (conversationHistory s @ [\<lparr>role = User, content = result_text r\<rparr>])]
          else [])"
  proof (cases "isFinal r \<and> trim (result_text r) \<noteq> []")
    case True
    then show ?thesis
      using final_transcript_fired(2)[OF st1_hist, of r env llm tts now sref] st1_req st1_ai
      by (simp add: st2_def)
  next
    case False
    then have "st2 = st1" by (auto simp: st2_def final_transcript_blank)
    then show ?thesis using False st1_req by auto
  qed
  have m: "on_stt_message env llm tts now cid sref (Results r) st
             = (if speechFinal r then on_stt_event env llm tts now cid sref SpeechEnd st2
                else st2)"
    using False by (simp add: on_stt_message_Results Let_def st2_def st1_def)
  show ?thesis unfolding m using st2_req by (simp add: on_stt_event_requests_other)
qed




lemma run_snoc:
  "run env swCalls (ops @ [x]) st = step env swCalls x (run env swCalls ops st)"
  by (simp add: run_def)

lemma history_ok_user_turn:
  assumes "history_ok s"
  shows "history_ok (s\<lparr>conversationHistory :=
                        conversationHistory s @ [\<lparr>role = User, content = x\<rparr>]\<rparr>)"
  using assms by (cases "conversationHistory s") (simp_all add: history_ok_def)

lemma slice_from_short:
  "length xs \<le> 10 \<Longrightarrow> slice_from (- 10) xs = xs"
  by (simp add: slice_from_def Let_def)

lemma length_slice_from_long:
  "10 \<le> length xs \<Longrightarrow> length (slice_from (- 10) xs) = 10"
  by (simp add: slice_from_def Let_def)

lemma five_turns_roles:
  "map_option (\<lambda>s. map role (conversationHistory s))
     (activeSessions (run full_env Map.empty five_turns new_orchestrator) ''call-1'')
   = Some [System, User, Assistant, User, Assistant, User, Assistant, User, Assistant,
           User, Assistant]"
  by (simp add: five_turns_def spoken_turn_def run_def numeral_eq_Suc initializeSession_def new_orchestrator_def
        on_stt_message_def handleMessage_def on_stt_event_def processUserInput_def
        generateResponse_def getOpenAI_def speakResponse_def elevenlabs_isConfigured_def
        isConfigured_def connect_def createDeepgramSTT_def handleBargeIn_def
        upd_session_def put_session_def emit_def full_env_def truthy_def trim_hi
        example_agent_def Let_def slice_from_def ceil_div_def upd_closed_over_def)

lemma long_call_request_roles:
  "map (map role) (requests (trace (run full_env Map.empty long_call new_orchestrator)))
     = [[System, User],
        [System, User, Assistant, User],
        [System, User, Assistant, User, Assistant, User],
        [System, User, Assistant, User, Assistant, User, Assistant, User],
        [System, User, Assistant, User, Assistant, User, Assistant, User, Assistant, User],
        [Assistant, User, Assistant, User, Assistant, User, Assistant, User, Assistant, User]]"
  by (simp add: long_call_def spoken_turn_def run_def numeral_eq_Suc initializeSession_def new_orchestrator_def
        on_stt_message_def handleMessage_def on_stt_event_def processUserInput_def
        generateResponse_def getOpenAI_def speakResponse_def elevenlabs_isConfigured_def
        isConfigured_def connect_def createDeepgramSTT_def handleBargeIn_def
        upd_session_def put_session_def emit_def full_env_def truthy_def trim_hi
        example_agent_def Let_def slice_from_def ceil_div_def upd_closed_over_def)

subsection \<open>The trigger of a turn\<close>




subsection \<open>The system prompt and the window\<close>

text \<open>
  Claim C10 (the system prompt leaves the window). In every session registered after any
  run of operations from the empty orchestrator, the history is not empty and begins with
  the system turn built from the agent of the session. The context that
  \<^verbatim>\<open>processUserInput\<close> sends for the next user turn, and so the context that the run
  sends when its next operation is a final transcript with text, is the last ten entries
  of the stored history extended by that user turn. While the stored history has fewer
  than ten entries that context is the whole extended history, system prompt first; once
  it has ten entries or more, the context has ten entries and none of them has the system
  role.
\<close>

theorem system_prompt_leaves_window:
  assumes "activeSessions (run env swCalls ops new_orchestrator) cid = Some s"
  shows "conversationHistory s \<noteq> []
         \<and> hd (conversationHistory s) = \<lparr>role = System, content = buildSystemPrompt (agent s)\<rparr>
         \<and> requests (trace (processUserInput env llm tts cid userText
                               (run env swCalls ops new_orchestrator)))
             = requests (trace (run env swCalls ops new_orchestrator))
               @ (if getOpenAI env (run env swCalls ops new_orchestrator) = None then []
                  else [slice_from (- 10)
                          (conversationHistory s @ [\<lparr>role = User, content = userText\<rparr>])])
         \<and> (isFinal r \<and> trim (result_text r) \<noteq> [] \<longrightarrow>
              requests (trace (run env swCalls
                                 (ops @ [SttMessage llm tts now cid sref (Results r)])
                                 new_orchestrator))
                = requests (trace (run env swCalls ops new_orchestrator))
                  @ (if getOpenAI env (run env swCalls ops new_orchestrator) = None then []
                     else [slice_from (- 10)
                             (conversationHistory s
                              @ [\<lparr>role = User, content = result_text r\<rparr>])]))
         \<and> (length (conversationHistory s) < 10 \<longrightarrow>
              slice_from (- 10) (conversationHistory s @ [\<lparr>role = User, content = userText\<rparr>])
                = conversationHistory s @ [\<lparr>role = User, content = userText\<rparr>])
         \<and> (10 \<le> length (conversationHistory s) \<longrightarrow>
              length (slice_from (- 10)
                        (conversationHistory s @ [\<lparr>role = User, content = userText\<rparr>])) = 10
              \<and> (\<forall>t \<in> set (slice_from (- 10)
                               (conversationHistory s
                                @ [\<lparr>role = User, content = userText\<rparr>])).
                    role t \<noteq> System))"
proof -
  let ?st = "run env swCalls ops new_orchestrator"
  let ?h' = "conversationHistory s @ [\<lparr>role = User, content = userText\<rparr>]"
  have "sessions_ok ?st"
    using sessions_ok_new by (rule sessions_ok_run)
  then have ok: "history_ok s" using assms by (rule sessions_okD)
  then have 1: "conversationHistory s \<noteq> []"
    and 2: "hd (conversationHistory s) = \<lparr>role = System, content = buildSystemPrompt (agent s)\<rparr>"
    by (simp_all add: history_ok_def)
  have 3: "requests (trace (processUserInput env llm tts cid userText ?st))
             = requests (trace ?st)
               @ (if getOpenAI env ?st = None then [] else [slice_from (- 10) ?h'])"
    using assms by (simp add: processUserInput_requests)
  have 4: "isFinal r \<and> trim (result_text r) \<noteq> [] \<longrightarrow>
              requests (trace (run env swCalls
                                 (ops @ [SttMessage llm tts now cid sref (Results r)])
                                 new_orchestrator))
                = requests (trace ?st)
                  @ (if getOpenAI env ?st = None then []
                     else [slice_from (- 10)
                             (conversationHistory s
                              @ [\<lparr>role = User, content = result_text r\<rparr>])])"
    by (simp add: run_snoc results_requests[OF assms])
  have 5: "length (conversationHistory s) < 10 \<longrightarrow> slice_from (- 10) ?h' = ?h'"
    by (simp add: slice_from_short)
  have ok': "history_ok (s\<lparr>conversationHistory := ?h'\<rparr>)"
    using ok by (rule history_ok_user_turn)
  have 6: "10 \<le> length (conversationHistory s) \<longrightarrow>
              length (slice_from (- 10) ?h') = 10
              \<and> (\<forall>t \<in> set (slice_from (- 10) ?h'). role t \<noteq> System)"
    using history_ok_window[OF ok'] by (simp add: length_slice_from_long)
  show ?thesis using 1 2 3 4 5 6 by blast
qed

theorem system_prompt_leaves_window_witness:
  "map_option (\<lambda>s. length (conversationHistory s))
     (activeSessions (run full_env Map.empty five_turns new_orchestrator) ''call-1'') = Some 11
   \<and> long_call = five_turns @ [spoken_turn]
   \<and> list_all (\<lambda>t. role t \<noteq> System)
       (last (requests (trace (run full_env Map.empty long_call new_orchestrator))))
   \<and> map (map role) (requests (trace (run full_env Map.empty long_call new_orchestrator)))
     = [[System, User],
        [System, User, Assistant, User],
        [System, User, Assistant, User, Assistant, User],
        [System, User, Assistant, User, Assistant, User, Assistant, User],
        [System, User, Assistant, User, Assistant, User, Assistant, User, Assistant, User],
        [Assistant, User, Assistant, User, Assistant, User, Assistant, User, Assistant, User]]"
proof -
  let ?st = "run full_env Map.empty five_turns new_orchestrator"
  let ?r = "\<lparr>result_text = js ''hi'', isFinal = True, speechFinal = True\<rparr>"
  from five_turns_roles obtain s
    where s: "activeSessions ?st ''call-1'' = Some s"
      and r: "map role (conversationHistory s)
                = [System, User, Assistant, User, Assistant, User, Assistant, User, Assistant,
                   User, Assistant]"
    by auto
  have "length (map role (conversationHistory s)) = 11" by (simp add: r)
  then have len: "length (conversationHistory s) = 11" by simp
  have split: "long_call = five_turns @ [spoken_turn]"
    by (simp add: long_call_def five_turns_def numeral_eq_Suc replicate_append_same)
  have ai: "getOpenAI full_env ?st \<noteq> None"
    by (simp add: getOpenAI_None full_env_def truthy_def)
  have fin: "isFinal ?r \<and> trim (result_text ?r) \<noteq> []" by (simp add: trim_hi)
  have w: "requests (trace (run full_env Map.empty long_call new_orchestrator))
             = requests (trace ?st)
               @ [slice_from (- 10) (conversationHistory s
                    @ [\<lparr>role = User, content = js ''hi''\<rparr>])]"
    and n: "\<forall>t \<in> set (slice_from (- 10) (conversationHistory s
                    @ [\<lparr>role = User, content = js ''hi''\<rparr>])). role t \<noteq> System"
    using system_prompt_leaves_window [OF s, where r = ?r and userText = "js ''hi''"
        and llm = "\<lambda>_. Completion (Some (js ''ok'')) (Some 10)"
        and tts = "[(False, Chunk [0x80])]" and now = 1000 and sref = 0]
      len ai fin
    by (simp_all add: split spoken_turn_def)
  have "list_all (\<lambda>t. role t \<noteq> System)
          (last (requests (trace (run full_env Map.empty long_call new_orchestrator))))"
    using n by (simp add: w list_all_iff)
  then show ?thesis using s len split long_call_request_roles by simp
qed

subsection \<open>Maximal duration\<close>

text \<open>
  When the transcription client of a live session is connected, an inbound frame that
  arrives 600 seconds or more after the start ends the session with reason
  \<^verbatim>\<open>max_duration\<close> and a reported duration of at least 600 seconds.
\<close>

lemma max_duration_enforced_when_connected:
  assumes "activeSessions st cid = Some s" and "callId s = cid"
    and "sttClients st cid = Some stt" and "isConnected stt"
    and "now - startTime s \<ge> 600000" and "now \<le> endNow"
  shows "activeSessions (handleAudioInput env now endNow cid audioData st) cid = None
         \<and> (\<exists>c. last (trace (handleAudioInput env now endNow cid audioData st))
                  = CallEnded cid (tenantId s) ((endNow - startTime s) div 1000) c
                      ''max_duration'')
         \<and> 600 \<le> (endNow - startTime s) div 1000"
proof -
  define st1 where "st1 = (if isSpeaking s \<and> detectVoiceActivity audioData
                             then handleBargeIn cid st else st)"
  define st2 where "st2 = (case sendAudio stt of
                               None \<Rightarrow> emit (SttSendAudio cid audioData) st1
                             | Some e \<Rightarrow> emit (AudioError cid) st1)"
  define f :: "CallSession \<Rightarrow> CallSession" where "f = (\<lambda>s. case silenceStart s of
                                      None \<Rightarrow> s
                                    | Some t \<Rightarrow>
                                        if t \<noteq> 0 \<and> now - t > SILENCE_THRESHOLD_MS \<and> \<not> isSpeaking s
                                        then s\<lparr>silenceStart := None\<rparr> else s)"
  define st3 where "st3 = upd_session cid f st2"
  have h: "handleAudioInput env now endNow cid audioData st
             = updateCallCredits env now endNow cid st3"
    unfolding st3_def st2_def st1_def f_def handleAudioInput_def Let_def
    using assms(1,3,4) by (simp add: connected_def)
  have "\<exists>s1. activeSessions st1 cid = Some s1
          \<and> startTime s1 = startTime s \<and> callId s1 = callId s \<and> tenantId s1 = tenantId s"
  proof (cases "isSpeaking s \<and> detectVoiceActivity audioData")
    case True
    then show ?thesis using assms(1) by (simp add: st1_def handleBargeIn_at)
  next
    case False
    then show ?thesis using assms(1) by (auto simp: st1_def)
  qed
  then obtain s1 where s1: "activeSessions st1 cid = Some s1"
    and k1: "startTime s1 = startTime s \<and> callId s1 = callId s \<and> tenantId s1 = tenantId s"
    by blast
  have s2: "activeSessions st2 cid = Some s1"
    using s1 by (simp add: st2_def split: option.splits)
  have kf: "startTime (f s1) = startTime s \<and> callId (f s1) = callId s
              \<and> tenantId (f s1) = tenantId s"
    using k1 by (simp add: f_def split: option.splits)
  have s3: "activeSessions st3 cid = Some (f s1)"
    using s2 by (simp add: st3_def upd_session_at)
  have c: "callId (f s1) = cid" using kf assms(2) by simp
  have d: "now - startTime (f s1) \<ge> 600000" using kf assms(5) by simp
  have 1: "activeSessions (updateCallCredits env now endNow cid st3) cid = None"
    using s3 c d by (rule updateCallCredits_expired(1))
  have 2: "last (trace (updateCallCredits env now endNow cid st3))
           = CallEnded cid (tenantId (f s1)) ((endNow - startTime (f s1)) div 1000)
               (max (creditsUsed (f s1))
                  (ceil_div (now - startTime (f s1)) 60000 * CREDITS_PER_MINUTE))
               ''max_duration''"
    using s3 c d by (rule updateCallCredits_expired(2))
  have 3: "600 \<le> (endNow - startTime s) div 1000"
    using assms(5,6) by linarith
  show ?thesis unfolding h using 1 2 3 kf by simp
qed

text \<open>
  Claim C4 (max-duration enforcement) does not hold of the code. \<^verbatim>\<open>handleAudioInput\<close>
  returns before \<^verbatim>\<open>updateCallCredits\<close> when the transcription client is not
  connected. A session created without transcription credentials and fed frames at 1,
  601 and 1200 seconds is still registered, and the frames have changed nothing: no
  credits, no \<^verbatim>\<open>callEnded\<close>.
\<close>

theorem max_duration_skipped_without_transcription:
  "activeSessions (run bare_env Map.empty
       [InitializeSession False 0 ''call-1'' ''tenant-A'' ''agent-X'' example_agent None,
        HandleAudioInput 1000 1000 ''call-1'' [0x80],
        HandleAudioInput 601000 601000 ''call-1'' [0x80],
        HandleAudioInput 1200000 1200000 ''call-1'' [0x80]] new_orchestrator) ''call-1'' \<noteq> None
   \<and> run bare_env Map.empty
       [InitializeSession False 0 ''call-1'' ''tenant-A'' ''agent-X'' example_agent None,
        HandleAudioInput 1000 1000 ''call-1'' [0x80],
        HandleAudioInput 601000 601000 ''call-1'' [0x80],
        HandleAudioInput 1200000 1200000 ''call-1'' [0x80]] new_orchestrator
     = run bare_env Map.empty
       [InitializeSession False 0 ''call-1'' ''tenant-A'' ''agent-X'' example_agent None]
       new_orchestrator"
  by (simp add: run_def initializeSession_def new_orchestrator_def handleAudioInput_def
        connected_def createDeepgramSTT_def isConfigured_def bare_env_def truthy_def Let_def
        emit_def)

subsection \<open>Metering\<close>

text \<open>
  Claim C2 (metering correctness), as amended. Over any log of time-based updates and
  turn generations applied to a session that is live before and after, the credit
  counter does not decrease (the statement holds from every state, hence after every
  event). A time-based update raises the counter to the elapsed minutes rounded up times
  the rate when that is more than the counter, and leaves it otherwise: the counter
  follows the highest level reached, not the sum of the levels. So after a log of
  time-based updates only the counter is the highest level (or its initial value); after
  a log of turn generations only, with the provider available, it is the initial value
  plus the sum of the token totals over one hundred, rounded up; and in general it lies
  between the highest time-based level and that level plus the sum of the turn credits.
\<close>

theorem metering_counter:
  assumes "activeSessions st k = Some s"
    and "activeSessions (fold (meter_step env k) log st) k = Some s'"
  shows "creditsUsed s \<le> creditsUsed s'
         \<and> time_level (startTime s) (creditsUsed s) log \<le> creditsUsed s'
         \<and> creditsUsed s' \<le> time_level (startTime s) (creditsUsed s) log + turn_credits log
         \<and> (list_all is_frame log
              \<longrightarrow> creditsUsed s' = time_level (startTime s) (creditsUsed s) log)
         \<and> (getOpenAI env st \<noteq> None \<and> list_all (\<lambda>ev. \<not> is_frame ev) log
              \<longrightarrow> creditsUsed s' = creditsUsed s + turn_credits log)"
proof -
  note m = meter_log[OF assms]
  have 1: "creditsUsed s \<le> creditsUsed s'"
    using m time_level_ge[of "creditsUsed s" "startTime s" log] by linarith
  have 4: "creditsUsed s' = time_level (startTime s) (creditsUsed s) log"
    if "list_all is_frame log"
    using m turn_credits_frames[OF that] by linarith
  show ?thesis using m 1 4 by blast
qed

theorem metering_counter_witness:
  "map_option creditsUsed
     (activeSessions (fold (meter_step full_env ''call-1'')
        [InboundFrame 30000, InboundFrame 90000, InboundFrame 100000] example_state) ''call-1'')
     = Some 10
   \<and> map_option creditsUsed
     (activeSessions (fold (meter_step full_env ''call-1'')
        [TurnGeneration (Completion (Some (js ''ok'')) (Some 300)),
         TurnGeneration (Completion (Some (js ''hm'')) (Some 42))] example_state) ''call-1'')
     = Some 4"
proof -
  have h: "activeSessions example_state ''call-1'' = Some example_session"
    by (simp add: example_state_def)
  have c: "getOpenAI full_env example_state \<noteq> None"
    by (simp add: getOpenAI_def full_env_def truthy_def)
  have "\<exists>s'. activeSessions (fold (meter_step full_env ''call-1'')
        [InboundFrame 30000, InboundFrame 90000, InboundFrame 100000] example_state) ''call-1''
          = Some s'"
    by (simp add: meter_step_def updateCallCredits_def example_state_def example_session_def
          ceil_div_def CREDITS_PER_MINUTE_def MAX_CALL_DURATION_SEC_def put_session_def emit_def
          Let_def)
  then obtain s1 where s1: "activeSessions (fold (meter_step full_env ''call-1'')
        [InboundFrame 30000, InboundFrame 90000, InboundFrame 100000] example_state) ''call-1''
          = Some s1" by blast
  have "\<exists>s'. activeSessions (fold (meter_step full_env ''call-1'')
        [TurnGeneration (Completion (Some (js ''ok'')) (Some 300)),
         TurnGeneration (Completion (Some (js ''hm'')) (Some 42))] example_state) ''call-1'' = Some s'"
    by (simp add: meter_step_def case_prod_beta example_state_def)
  then obtain s2 where s2: "activeSessions (fold (meter_step full_env ''call-1'')
        [TurnGeneration (Completion (Some (js ''ok'')) (Some 300)),
         TurnGeneration (Completion (Some (js ''hm'')) (Some 42))] example_state) ''call-1'' = Some s2"
    by blast
  have "creditsUsed s1 = 10"
    using metering_counter [OF h s1]
    by (simp add: example_session_def ceil_div_def CREDITS_PER_MINUTE_def)
  moreover have "creditsUsed s2 = 4"
    using metering_counter [OF h s2] c
    by (simp add: example_session_def ceil_div_def)
  ultimately show ?thesis using s1 s2 by simp
qed

text \<open>
  The claim as stated fails: after a frame at 30 seconds, a turn of 300 tokens and a
  frame at 90 seconds the counter is 10, where the sum of the specification is 18 (and
  13 if the time-based part is read as the highest level).
\<close>

theorem metering_sum_counterexample:
  "map_option creditsUsed
     (activeSessions (fold (meter_step full_env ''call-1'') mixed_log example_state) ''call-1'')
     = Some 10
   \<and> spec_creditsUsed (startTime example_session) mixed_log = 18
   \<and> time_level (startTime example_session) 0 mixed_log + turn_credits mixed_log = 13
   \<and> map_option creditsUsed
       (activeSessions (fold (meter_step full_env ''call-1'') mixed_log example_state) ''call-1'')
     \<noteq> Some (spec_creditsUsed (startTime example_session) mixed_log)"
  by (simp add: mixed_log_def meter_step_def updateCallCredits_def generateResponse_def
        getOpenAI_def full_env_def truthy_def example_state_def example_session_def
        spec_creditsUsed_def ceil_div_def CREDITS_PER_MINUTE_def MAX_CALL_DURATION_SEC_def
        put_session_def emit_def Let_def slice_from_def)

end
